theory Spec2Isabelle
  imports Main "HOL-Library.Sublist" "HOL-Library.List_Lexorder" "HOL-Library.Product_Lexorder"
begin

section \<open>JavaScript values used by the analysed functions\<close>

text \<open>
  Strings are byte strings (\<^typ>\<open>string\<close>); the Chinese literals of the source are kept as
  their UTF-8 bytes. A JavaScript string is falsy exactly when it is empty; \<open>undefined\<close>
  and \<open>null\<close> are \<^const>\<open>None\<close>.
\<close>

definition truthy :: "string \<Rightarrow> bool" where
  "truthy s = (s \<noteq> [])"

text \<open>
  A plain object (\<open>Record<string, V>\<close>) and a \<open>Map\<close> are association lists in insertion
  order: writing an existing key replaces its value in place, writing a new key appends.
  Reading is \<^const>\<open>map_of\<close>. (JavaScript enumerates the keys of a plain object that are
  canonical array indices, such as \<open>"0"\<close> or \<open>"42"\<close>, before all others and in ascending
  order. The keys here are package names, override keys and conflict types; none is taken
  to be of that form.)
\<close>

fun obj_set :: "('k \<times> 'v) list \<Rightarrow> 'k \<Rightarrow> 'v \<Rightarrow> ('k \<times> 'v) list" where
  "obj_set [] k v = [(k, v)]"
| "obj_set ((k', v') # m) k v = (if k' = k then (k, v) # m else (k', v') # obj_set m k v)"

text \<open>\<open>Object.assign(target, source)\<close> and the object spread: the entries of the source
  are written into the target one after the other.\<close>

definition obj_assign :: "('k \<times> 'v) list \<Rightarrow> ('k \<times> 'v) list \<Rightarrow> ('k \<times> 'v) list" where
  "obj_assign target source = fold (\<lambda>(k, v) t. obj_set t k v) source target"

text \<open>A \<open>Set\<close> keeps its elements in insertion order; \<open>add\<close> of a member changes nothing.\<close>

definition set_add :: "'a list \<Rightarrow> 'a \<Rightarrow> 'a list" where
  "set_add s v = (if v \<in> set s then s else s @ [v])"

text \<open>\<open>Array.prototype.join\<close>.\<close>

fun join :: "string \<Rightarrow> string list \<Rightarrow> string" where
  "join sep [] = []"
| "join sep [x] = x"
| "join sep (x # y # ys) = x @ sep @ join sep (y # ys)"

text \<open>\<open>String.prototype.split\<close> with a one-character separator: the result is never
  empty, and the empty string gives one empty segment.\<close>

fun split :: "char \<Rightarrow> string \<Rightarrow> string list" where
  "split c [] = [[]]"
| "split c (x # xs) =
     (if x = c then [] # split c xs
      else (case split c xs of [] \<Rightarrow> [[x]] | w # ws \<Rightarrow> (x # w) # ws))"

text \<open>The decimal rendering of a non-negative integer, as a template literal prints it.\<close>

definition digit_char :: "nat \<Rightarrow> char" where
  "digit_char d = ''0123456789'' ! d"

fun show_nat :: "nat \<Rightarrow> string" where
  "show_nat n = (if n < 10 then [digit_char n] else show_nat (n div 10) @ [digit_char (n mod 10)])"

declare show_nat.simps [simp del]

section \<open>utils/index.ts\<close>

subsection \<open>The semver package\<close>

text \<open>
  The source imports the npm package \<open>semver\<close>; its functions are parameters of the
  model. A call may throw, so a library function returns \<open>js_error + result\<close>.
\<close>

datatype js_error = TypeError | SyntaxError | Error string

type_synonym satisfies_fn = "string \<Rightarrow> string \<Rightarrow> js_error + bool"
type_synonym maxSatisfying_fn = "string list \<Rightarrow> string \<Rightarrow> js_error + string option"

text \<open>\<open>satisfiesVersion\<close>: the call is wrapped in \<open>try\<close>, and \<open>catch\<close> returns false.\<close>

definition satisfiesVersion :: "satisfies_fn \<Rightarrow> string \<Rightarrow> string \<Rightarrow> bool" where
  "satisfiesVersion sat version rng =
     (case sat version rng of Inl e \<Rightarrow> False | Inr b \<Rightarrow> b)"

text \<open>\<open>getMaxSatisfying\<close>: the call is not wrapped, an exception of the library propagates.\<close>

definition getMaxSatisfying :: "maxSatisfying_fn \<Rightarrow> string list \<Rightarrow> string \<Rightarrow> js_error + string option" where
  "getMaxSatisfying maxSat versions rng = maxSat versions rng"

text \<open>
  \<open>generateId\<close> is \<open>Math.random().toString(36).substring(2, 10)\<close>. The random number
  generator is a collaborator: \<open>rnd k\<close> is the string \<open>Math.random().toString(36)\<close> of the
  \<open>k\<close>-th call (\<open>0.\<close> followed by digits in base 36, or \<open>0\<close> alone), and the model threads
  the number of calls made so far.
\<close>

definition generateId :: "(nat \<Rightarrow> string) \<Rightarrow> nat \<Rightarrow> string \<times> nat" where
  "generateId rnd k = (take 8 (drop 2 (rnd k)), Suc k)"

subsection \<open>A model of the semver package\<close>

text \<open>
  Modelled from the spec: the functions \<open>satisfies\<close> and \<open>maxSatisfying\<close> of the npm package
  \<open>semver\<close>, which \<open>utils/index.ts\<close> imports and which is not among the sources. The spec
  (4.1, 7) asks for standard precedence (numeric major.minor.patch, a pre-release below its
  release), for \<open>satisfies\<close> to answer false on a malformed range and for \<open>maxSatisfying\<close>
  to answer none when nothing qualifies. The model covers versions
  \<open>[v]MAJOR.MINOR.PATCH[-PRERELEASE][+BUILD]\<close> and ranges made of comparators with the
  operators \<open>^ ~ >= > <= < =\<close> on full or partial versions, joined by spaces and \<open>||\<close>;
  every other string is a malformed range.
\<close>

datatype ident = Numeric nat | Alphanumeric string

record semver =
  sv_major :: nat
  sv_minor :: nat
  sv_patch :: nat
  sv_prerelease :: "ident list"

definition is_digit :: "char \<Rightarrow> bool" where
  "is_digit c = (let n = (of_char c :: nat) in 48 \<le> n \<and> n \<le> 57)"

definition is_letter :: "char \<Rightarrow> bool" where
  "is_letter c = (let n = (of_char c :: nat) in (65 \<le> n \<and> n \<le> 90) \<or> (97 \<le> n \<and> n \<le> 122))"

definition is_identifier_char :: "char \<Rightarrow> bool" where
  "is_identifier_char c = (is_digit c \<or> is_letter c \<or> c = CHR ''-'')"

definition digits_value :: "string \<Rightarrow> nat" where
  "digits_value s = foldl (\<lambda>n c. 10 * n + ((of_char c :: nat) - 48)) 0 s"

definition MAX_SAFE_INTEGER :: nat where
  "MAX_SAFE_INTEGER = 9007199254740991"

text \<open>A numeric identifier: digits without a leading zero.\<close>

definition numeric_identifier :: "string \<Rightarrow> nat option" where
  "numeric_identifier s =
     (case s of
        [] \<Rightarrow> None
      | c # cs \<Rightarrow> if list_all is_digit (c # cs) \<and> (cs = [] \<or> c \<noteq> CHR ''0'')
                  then Some (digits_value (c # cs)) else None)"

definition prerelease_identifier :: "string \<Rightarrow> ident option" where
  "prerelease_identifier s =
     (case numeric_identifier s of
        Some n \<Rightarrow> Some (Numeric n)
      | None \<Rightarrow> if s \<noteq> [] \<and> list_all is_identifier_char s \<and> \<not> list_all is_digit s
                then Some (Alphanumeric s) else None)"

definition parse_prerelease :: "string \<Rightarrow> ident list option" where
  "parse_prerelease s = those (map prerelease_identifier (split CHR ''.'' s))"

definition valid_build :: "string \<Rightarrow> bool" where
  "valid_build s = list_all (\<lambda>p. p \<noteq> [] \<and> list_all is_identifier_char p) (split CHR ''.'' s)"

definition strip_v :: "string \<Rightarrow> string" where
  "strip_v s = (case s of [] \<Rightarrow> [] | c # cs \<Rightarrow> if c = CHR ''v'' then cs else c # cs)"

definition parse_version :: "string \<Rightarrow> semver option" where
  "parse_version s =
     (let s1 = strip_v s;
          main = takeWhile (\<lambda>c. c \<noteq> CHR ''+'') s1;
          build = dropWhile (\<lambda>c. c \<noteq> CHR ''+'') s1;
          core = takeWhile (\<lambda>c. c \<noteq> CHR ''-'') main;
          pre = dropWhile (\<lambda>c. c \<noteq> CHR ''-'') main
      in if length s > 256 \<or> (build \<noteq> [] \<and> \<not> valid_build (tl build)) then None
         else (case map numeric_identifier (split CHR ''.'' core) of
                 [Some ma, Some mi, Some pa] \<Rightarrow>
                   if ma > MAX_SAFE_INTEGER \<or> mi > MAX_SAFE_INTEGER \<or> pa > MAX_SAFE_INTEGER then None
                   else (case pre of
                           [] \<Rightarrow> Some \<lparr> sv_major = ma, sv_minor = mi, sv_patch = pa, sv_prerelease = [] \<rparr>
                         | d # p \<Rightarrow> map_option
                             (\<lambda>pre_ids. \<lparr> sv_major = ma, sv_minor = mi, sv_patch = pa, sv_prerelease = pre_ids \<rparr>)
                             (parse_prerelease p))
               | _ \<Rightarrow> None))"

text \<open>
  Precedence: major, minor and patch as numbers; then a version with a pre-release is
  below the one without; pre-releases compare identifier by identifier, a numeric identifier
  below an alphanumeric one, numbers by value, words in ASCII order, and a shorter list below
  its extensions. The order is the lexicographic order of the following key.
\<close>

definition identifier_key :: "ident \<Rightarrow> bool \<times> nat \<times> nat list" where
  "identifier_key i =
     (case i of Numeric n \<Rightarrow> (False, n, []) | Alphanumeric w \<Rightarrow> (True, 0, map of_char w))"

definition semver_key :: "semver \<Rightarrow> nat \<times> nat \<times> nat \<times> bool \<times> (bool \<times> nat \<times> nat list) list" where
  "semver_key v = (sv_major v, sv_minor v, sv_patch v, sv_prerelease v = [], map identifier_key (sv_prerelease v))"

definition semver_compare :: "semver \<Rightarrow> semver \<Rightarrow> int" where
  "semver_compare a b =
     (if semver_key a < semver_key b then - 1 else if semver_key a = semver_key b then 0 else 1)"

datatype operator = GTE | GT | LTE | LT | EQ

type_synonym comparator = "operator \<times> semver"

definition comparator_test :: "comparator \<Rightarrow> semver \<Rightarrow> bool" where
  "comparator_test c v =
     (case c of (op, sv) \<Rightarrow>
        (case op of
           GTE \<Rightarrow> semver_compare v sv \<ge> 0
         | GT \<Rightarrow> semver_compare v sv > 0
         | LTE \<Rightarrow> semver_compare v sv \<le> 0
         | LT \<Rightarrow> semver_compare v sv < 0
         | EQ \<Rightarrow> semver_compare v sv = 0))"

text \<open>A version with a pre-release satisfies a comparator set only if one comparator of
  the set names a pre-release of the same major.minor.patch.\<close>

definition test_set :: "comparator list \<Rightarrow> semver \<Rightarrow> bool" where
  "test_set comps v =
     (list_all (\<lambda>c. comparator_test c v) comps \<and>
      (sv_prerelease v = [] \<or>
       list_ex (\<lambda>c. sv_prerelease (snd c) \<noteq> [] \<and> sv_major (snd c) = sv_major v \<and> sv_minor (snd c) = sv_minor v
                  \<and> sv_patch (snd c) = sv_patch v) comps))"

type_synonym semver_range = "comparator list list"

definition range_test :: "semver_range \<Rightarrow> semver \<Rightarrow> bool" where
  "range_test R v = list_ex (\<lambda>comps. test_set comps v) R"

text \<open>A partial version: a missing or wildcard component is \<^const>\<open>None\<close>.\<close>

type_synonym partial_version = "nat option \<times> nat option \<times> nat option \<times> ident list"

definition xrange_identifier :: "string \<Rightarrow> nat option option" where
  "xrange_identifier s =
     (if s = ''x'' \<or> s = ''X'' \<or> s = ''*'' then Some None
      else map_option Some (numeric_identifier s))"

definition parse_partial :: "string \<Rightarrow> partial_version option" where
  "parse_partial s =
     (let s1 = strip_v s;
          core = takeWhile (\<lambda>c. c \<noteq> CHR ''-'') s1;
          pre = dropWhile (\<lambda>c. c \<noteq> CHR ''-'') s1
      in case map xrange_identifier (split CHR ''.'' core) of
           [Some a] \<Rightarrow> if pre = [] then Some (a, None, None, []) else None
         | [Some a, Some b] \<Rightarrow> if pre = [] then Some (a, b, None, []) else None
         | [Some a, Some b, Some c] \<Rightarrow>
             (case pre of
                [] \<Rightarrow> Some (a, b, c, [])
              | d # p \<Rightarrow> map_option (\<lambda>pre_ids. (a, b, c, pre_ids)) (parse_prerelease p))
         | _ \<Rightarrow> None)"

definition mk_semver :: "nat \<Rightarrow> nat \<Rightarrow> nat \<Rightarrow> ident list \<Rightarrow> semver" where
  "mk_semver a b c pre = \<lparr> sv_major = a, sv_minor = b, sv_patch = c, sv_prerelease = pre \<rparr>"

definition any_version :: "comparator list" where
  "any_version = [(GTE, mk_semver 0 0 0 [])]"

definition no_version :: "comparator list" where
  "no_version = [(LT, mk_semver 0 0 0 [Numeric 0])]"

text \<open>The primitive comparators a caret, a tilde or a partial version stands for.\<close>

definition caret_range :: "partial_version \<Rightarrow> comparator list" where
  "caret_range pv =
     (case pv of (M, m, p, pre) \<Rightarrow>
       (case M of
          None \<Rightarrow> any_version
        | Some a \<Rightarrow>
           (case m of
              None \<Rightarrow> [(GTE, mk_semver a 0 0 []), (LT, mk_semver (a + 1) 0 0 [Numeric 0])]
            | Some b \<Rightarrow>
               (case p of
                  None \<Rightarrow>
                    if a = 0 then [(GTE, mk_semver 0 b 0 []), (LT, mk_semver 0 (b + 1) 0 [Numeric 0])]
                    else [(GTE, mk_semver a b 0 []), (LT, mk_semver (a + 1) 0 0 [Numeric 0])]
                | Some c \<Rightarrow>
                    if a = 0 then
                      (if b = 0 then [(GTE, mk_semver 0 0 c pre), (LT, mk_semver 0 0 (c + 1) [Numeric 0])]
                       else [(GTE, mk_semver 0 b c pre), (LT, mk_semver 0 (b + 1) 0 [Numeric 0])])
                    else [(GTE, mk_semver a b c pre), (LT, mk_semver (a + 1) 0 0 [Numeric 0])]))))"

definition tilde_range :: "partial_version \<Rightarrow> comparator list" where
  "tilde_range pv =
     (case pv of (M, m, p, pre) \<Rightarrow>
       (case M of
          None \<Rightarrow> any_version
        | Some a \<Rightarrow>
           (case m of
              None \<Rightarrow> [(GTE, mk_semver a 0 0 []), (LT, mk_semver (a + 1) 0 0 [Numeric 0])]
            | Some b \<Rightarrow>
               (case p of
                  None \<Rightarrow> [(GTE, mk_semver a b 0 []), (LT, mk_semver a (b + 1) 0 [Numeric 0])]
                | Some c \<Rightarrow> [(GTE, mk_semver a b c pre), (LT, mk_semver a (b + 1) 0 [Numeric 0])]))))"

definition x_range :: "string \<Rightarrow> partial_version \<Rightarrow> comparator list" where
  "x_range op pv =
     (case pv of (M, m, p, pre) \<Rightarrow>
       (case M of
          None \<Rightarrow> if op = ''>'' \<or> op = ''<'' then no_version else any_version
        | Some a \<Rightarrow>
           (case m of
              None \<Rightarrow>
                if op = ''>'' then [(GTE, mk_semver (a + 1) 0 0 [])]
                else if op = ''>='' then [(GTE, mk_semver a 0 0 [])]
                else if op = ''<'' then [(LT, mk_semver a 0 0 [Numeric 0])]
                else if op = ''<='' then [(LT, mk_semver (a + 1) 0 0 [Numeric 0])]
                else [(GTE, mk_semver a 0 0 []), (LT, mk_semver (a + 1) 0 0 [Numeric 0])]
            | Some b \<Rightarrow>
               (case p of
                  None \<Rightarrow>
                    if op = ''>'' then [(GTE, mk_semver a (b + 1) 0 [])]
                    else if op = ''>='' then [(GTE, mk_semver a b 0 [])]
                    else if op = ''<'' then [(LT, mk_semver a b 0 [Numeric 0])]
                    else if op = ''<='' then [(LT, mk_semver a (b + 1) 0 [Numeric 0])]
                    else [(GTE, mk_semver a b 0 []), (LT, mk_semver a (b + 1) 0 [Numeric 0])]
                | Some c \<Rightarrow>
                    [(if op = ''>'' then GT else if op = ''>='' then GTE else if op = ''<'' then LT
                      else if op = ''<='' then LTE else EQ, mk_semver a b c pre)]))))"

definition split_operator :: "string \<Rightarrow> string \<times> string" where
  "split_operator s =
     (if prefix ''>='' s then (''>='', drop 2 s)
      else if prefix ''<='' s then (''<='', drop 2 s)
      else if prefix ''>'' s then (''>'', drop 1 s)
      else if prefix ''<'' s then (''<'', drop 1 s)
      else if prefix ''='' s then (''='', drop 1 s)
      else if prefix ''^'' s then (''^'', drop 1 s)
      else if prefix ''~'' s then (''~'', drop 1 s)
      else ([], s))"

definition parse_comparator :: "string \<Rightarrow> comparator list option" where
  "parse_comparator s =
     (case split_operator s of (op, rest) \<Rightarrow>
        map_option (\<lambda>pv. if op = ''^'' then caret_range pv
                         else if op = ''~'' then tilde_range pv
                         else x_range op pv)
          (parse_partial rest))"

definition parse_comparator_set :: "string \<Rightarrow> comparator list option" where
  "parse_comparator_set s =
     (let ws = filter (\<lambda>w. w \<noteq> []) (split CHR '' '' s)
      in if ws = [] then Some any_version
         else map_option concat (those (map parse_comparator ws)))"

text \<open>The alternatives of a range are separated by \<open>||\<close>.\<close>

fun split_or :: "string \<Rightarrow> string list" where
  "split_or [] = [[]]"
| "split_or [c] = [[c]]"
| "split_or (a # b # cs) =
     (if a = CHR ''|'' \<and> b = CHR ''|'' then [] # split_or cs
      else (case split_or (b # cs) of [] \<Rightarrow> [[a]] | w # ws \<Rightarrow> (a # w) # ws))"

definition parse_range :: "string \<Rightarrow> semver_range option" where
  "parse_range r = those (map parse_comparator_set (split_or r))"

text \<open>\<open>semver.satisfies\<close>: false for a malformed range and for a malformed version.\<close>

definition semver_satisfies :: satisfies_fn where
  "semver_satisfies version rng =
     (case parse_range rng of
        None \<Rightarrow> Inr False
      | Some R \<Rightarrow> (case parse_version version of None \<Rightarrow> Inr False | Some v \<Rightarrow> Inr (range_test R v)))"

text \<open>\<open>semver.maxSatisfying\<close>: none for a malformed range; otherwise the versions are
  visited in order, and one that satisfies the range replaces the current maximum when the
  maximum compares below it.\<close>

definition max_step :: "semver_range \<Rightarrow> string \<Rightarrow> (string \<times> semver) option \<Rightarrow> (string \<times> semver) option" where
  "max_step R v mx =
     (case parse_version v of
        None \<Rightarrow> mx
      | Some sv \<Rightarrow>
          if range_test R sv
          then (case mx of
                  None \<Rightarrow> Some (v, sv)
                | Some m \<Rightarrow> if semver_compare (snd m) sv = - 1 then Some (v, sv) else mx)
          else mx)"

definition semver_maxSatisfying :: maxSatisfying_fn where
  "semver_maxSatisfying versions rng =
     (case parse_range rng of
        None \<Rightarrow> Inr None
      | Some R \<Rightarrow> Inr (map_option fst (fold (max_step R) versions None)))"

section \<open>core/package-manager/detector.ts\<close>

text \<open>
  The declarations of \<open>types/index.ts\<close> are not part of the sources at hand; the
  records below carry the fields the analysed functions read. An optional field is an
  \<^typ>\<open>'a option\<close>.
\<close>

datatype override_value = OverrideString string | OverrideObject "(string \<times> override_value) list"

record package_json =
  pj_name :: string
  pj_version :: string
  dependencies :: "(string \<times> string) list option"
  devDependencies :: "(string \<times> string) list option"
  engines_node :: "string option"
  overrides :: "(string \<times> override_value) list option"
  pnpm_overrides :: "(string \<times> string) list option"
  resolutions :: "(string \<times> string) list option"

record workspace_info =
  ws_name :: string
  ws_path :: string
  relativePath :: string
  ws_version :: string
  packageJson :: package_json

text \<open>\<open>flattenOverrides\<close>: nested override objects become \<open>>\<close>-joined keys of the
  result object. An empty prefix is falsy, so a key nested under the empty key keeps its own
  name.\<close>

fun flattenOverrides :: "(string \<times> override_value) list \<Rightarrow> (string \<times> string) list \<Rightarrow> string
    \<Rightarrow> (string \<times> string) list"
  and flattenOverride :: "string \<Rightarrow> override_value \<Rightarrow> (string \<times> string) list \<Rightarrow> string
    \<Rightarrow> (string \<times> string) list" where
  "flattenOverrides [] result pfx = result"
| "flattenOverrides ((key, v) # rest) result pfx =
     flattenOverrides rest (flattenOverride key v result pfx) pfx"
| "flattenOverride key (OverrideString s) result pfx =
     obj_set result (if truthy pfx then pfx @ ''>'' @ key else key) s"
| "flattenOverride key (OverrideObject entries) result pfx =
     flattenOverrides entries result (if truthy pfx then pfx @ ''>'' @ key else key)"

definition getOverrides :: "package_json \<Rightarrow> string \<Rightarrow> (string \<times> string) list" where
  "getOverrides pj pm =
     (if pm = ''npm'' then
        (case overrides pj of None \<Rightarrow> [] | Some ov \<Rightarrow> flattenOverrides ov [] [])
      else if pm = ''pnpm'' then
        (let result = (case pnpm_overrides pj of None \<Rightarrow> [] | Some po \<Rightarrow> obj_assign [] po)
         in case overrides pj of None \<Rightarrow> result | Some ov \<Rightarrow> flattenOverrides ov result [])
      else if pm = ''yarn'' then
        (case resolutions pj of None \<Rightarrow> [] | Some r \<Rightarrow> obj_assign [] r)
      else [])"

text \<open>\<open>getCurrentNodeVersion\<close>: \<open>process.version\<close> without a leading \<open>v\<close>. The version of the
  running interpreter is an input of the model.\<close>

definition getCurrentNodeVersion :: "string \<Rightarrow> string" where
  "getCurrentNodeVersion process_version =
     (case process_version of c # cs \<Rightarrow> (if c = CHR ''v'' then cs else c # cs) | [] \<Rightarrow> [])"

section \<open>tools/detect-conflicts.ts\<close>

subsection \<open>Conflict records\<close>

datatype conflict_type =
  version_conflict | peer_dependency | multiple_versions | workspace_mismatch
| override_risk | engine_mismatch | deprecated | missing_dependency

datatype severity = error | warning | info

text \<open>The \<open>details\<close> object of an issue has at most one of its optional keys set.\<close>

datatype details =
  no_details
| peerDependency (host: string) (hostVersion: string) (peerPackage: string) (required: string)
    (installed: "string option")
| multipleVersions "(string \<times> string list) list"
| workspaceMismatch "(string \<times> string \<times> string list) list"
| overrideRisk string string "string list" bool
| engineMismatch string string string string

record conflict_issue =
  id' :: string
  type' :: conflict_type
  severity :: severity
  package :: string
  message :: string
  details :: details
  affectedPaths :: "string list"
  suggestedAction :: string

text \<open>
  Every detector fills an array \<open>issues\<close> with \<open>push\<close>, and every pushed record calls
  \<open>generateId()\<close> once. The state of a detector is the array together with the number of
  identifiers generated so far.
\<close>

type_synonym issues_state = "conflict_issue list \<times> nat"

definition push_issue :: "(nat \<Rightarrow> string) \<Rightarrow> (string \<Rightarrow> conflict_issue) \<Rightarrow> issues_state \<Rightarrow> issues_state" where
  "push_issue rnd mk st =
     (case st of (issues, k) \<Rightarrow> (case generateId rnd k of (i, k') \<Rightarrow> (issues @ [mk i], k')))"

subsection \<open>Collaborators\<close>

record exec_result =
  stdout :: string
  stderr :: string
  exitCode :: int

text \<open>The parsed output of \<open>npm ls --json\<close>, typed as the interface \<open>NpmLsOutput\<close> of the
  source, together with the \<open>problems\<close> array \<open>detectPeerDependencyIssues\<close> reads.\<close>

datatype npm_dep = NpmDep (dep_version: "string option") (dep_dependencies: "(string \<times> npm_dep) list option")

record npm_ls =
  problems :: "string list option"
  ls_dependencies :: "(string \<times> npm_dep) list option"

subsection \<open>The two regular expressions of \<open>detectPeerDependencyIssues\<close>\<close>

text \<open>In a JavaScript regular expression \<open>.\<close> matches every character but a line
  terminator. A string is the list of its UTF-8 bytes here, and only line feed and carriage
  return are told apart: the separators U+2028 and U+2029, which JavaScript also takes for
  line terminators, are taken not to occur in the output of the package manager.\<close>

definition not_line_terminator :: "char \<Rightarrow> bool" where
  "not_line_terminator c = (c \<noteq> CHR 0x0A \<and> c \<noteq> CHR 0x0D)"

text \<open>All ways to cut a string into a non-empty head and a rest, the longest head first:
  the order in which a greedy \<open>(.+)\<close> tries its matches.\<close>

definition greedy_splits :: "string \<Rightarrow> (string \<times> string) list" where
  "greedy_splits s = map (\<lambda>n. (take n s, drop n s)) (rev [1..<Suc (length s)])"

definition required_by_lit :: string where
  "required_by_lit = '', required by ''"

definition peer_dep_missing_lit :: string where
  "peer_dep_missing_lit = ''peer dep missing: ''"

text \<open>\<open>(.+), required by (.+)\<close> against the rest of a line.\<close>

definition match_required_by :: "string \<Rightarrow> (string \<times> string) option" where
  "match_required_by l =
     (case filter (\<lambda>(p, s). prefix required_by_lit s \<and> drop (length required_by_lit) s \<noteq> [])
             (greedy_splits l) of
        [] \<Rightarrow> None
      | (p, s) # _ \<Rightarrow> Some (p, drop (length required_by_lit) s))"

text \<open>\<open>(.+)@(.+), required by (.+)\<close> against the rest of a line.\<close>

definition match_peer_groups :: "string \<Rightarrow> (string \<times> string \<times> string) option" where
  "match_peer_groups l =
     (case List.map_filter
             (\<lambda>(p, r). case r of
                [] \<Rightarrow> None
              | c # r' \<Rightarrow> if c = CHR ''@''
                          then map_option (\<lambda>(g2, g3). (p, g2, g3)) (match_required_by r')
                          else None)
             (greedy_splits l) of
        [] \<Rightarrow> None
      | m # _ \<Rightarrow> Some m)"

text \<open>The pattern \<open>/peer dep missing: (.+)@(.+), required by (.+)/\<close> tried at the start of
  \<open>s\<close>: the three groups of the match.\<close>

definition match_peer_at :: "string \<Rightarrow> (string \<times> string \<times> string) option" where
  "match_peer_at s =
     (if prefix peer_dep_missing_lit s
      then match_peer_groups (takeWhile not_line_terminator (drop (length peer_dep_missing_lit) s))
      else None)"

text \<open>\<open>problem.match(...)\<close>: the leftmost position where the pattern matches.\<close>

fun peerMatch :: "string \<Rightarrow> (string \<times> string \<times> string) option" where
  "peerMatch [] = None"
| "peerMatch (c # cs) =
     (case match_peer_at (c # cs) of Some m \<Rightarrow> Some m | None \<Rightarrow> peerMatch cs)"

text \<open>With the flag \<open>i\<close> the ASCII letters of a pattern match in both cases.\<close>

definition lower :: "char \<Rightarrow> char" where
  "lower c =
     (case map_of (zip ''ABCDEFGHIJKLMNOPQRSTUVWXYZ'' ''abcdefghijklmnopqrstuvwxyz'') c of
        Some l \<Rightarrow> l
      | None \<Rightarrow> c)"

definition prefix_ci :: "string \<Rightarrow> string \<Rightarrow> bool" where
  "prefix_ci p s = prefix p (map lower s)"

text \<open>The rest of \<open>s\<close> after the first occurrence of the lower-case word \<open>p\<close>, in any case.\<close>

fun find_ci :: "string \<Rightarrow> string \<Rightarrow> string option" where
  "find_ci p [] = (if p = [] then Some [] else None)"
| "find_ci p (c # cs) =
     (if prefix_ci p (c # cs) then Some (drop (length p) (c # cs)) else find_ci p cs)"

text \<open>\<open>WARN.*peer.*dep.*\<close> tried at the start of \<open>s\<close>.\<close>

definition warn_at :: "string \<Rightarrow> bool" where
  "warn_at s =
     (prefix_ci ''warn'' s \<and>
      (case find_ci ''peer'' (takeWhile not_line_terminator (drop 4 s)) of
         None \<Rightarrow> False
       | Some r \<Rightarrow> find_ci ''dep'' r \<noteq> None))"

text \<open>
  \<open>stderr.match(/WARN.*peer.*dep.*/gi)\<close>: all matches from left to right. A match runs to
  the end of its line, and the search goes on behind it; the first argument counts the
  characters of the last match that are still to be skipped. (The source tests the result for
  \<open>null\<close>; no match is the empty list here.)
\<close>

fun peerWarnings :: "nat \<Rightarrow> string \<Rightarrow> string list" where
  "peerWarnings n [] = []"
| "peerWarnings (Suc n) (c # cs) = peerWarnings n cs"
| "peerWarnings 0 (c # cs) =
     (if warn_at (c # cs)
      then (let m = takeWhile not_line_terminator (c # cs) in m # peerWarnings (length m - 1) cs)
      else peerWarnings 0 cs)"

subsection \<open>\<open>detectPeerDependencyIssues\<close>\<close>

definition peer_problem_issue :: "string \<Rightarrow> string \<times> string \<times> string \<Rightarrow> string \<Rightarrow> conflict_issue" where
  "peer_problem_issue problem m i =
     (case m of (g1, g2, g3) \<Rightarrow>
       \<lparr> id' = i, type' = peer_dependency, severity = warning, package = g1, message = problem,
         details = peerDependency g3 [] g1 g2 None,
         affectedPaths = [g3],
         suggestedAction = [CHR 0xE5, CHR 0xAE, CHR 0x89, CHR 0xE8, CHR 0xA3, CHR 0x85] @ '' '' @ g1
           @ ''@'' @ g2 @ '' '' @ [CHR 0xE6, CHR 0x88, CHR 0x96, CHR 0xE6, CHR 0xA3, CHR 0x80, CHR 0xE6,
           CHR 0x9F, CHR 0xA5, CHR 0xE7, CHR 0x89, CHR 0x88, CHR 0xE6, CHR 0x9C, CHR 0xAC, CHR 0xE5,
           CHR 0x85, CHR 0xBC, CHR 0xE5, CHR 0xAE, CHR 0xB9, CHR 0xE6, CHR 0x80, CHR 0xA7] \<rparr>)"

definition peer_problem :: "(nat \<Rightarrow> string) \<Rightarrow> string \<Rightarrow> issues_state \<Rightarrow> issues_state" where
  "peer_problem rnd problem st =
     (case peerMatch problem of
        None \<Rightarrow> st
      | Some m \<Rightarrow> push_issue rnd (peer_problem_issue problem m) st)"

definition peer_warning_issue :: "string \<Rightarrow> string \<Rightarrow> conflict_issue" where
  "peer_warning_issue w i =
     \<lparr> id' = i, type' = peer_dependency, severity = warning, package = ''unknown'', message = w,
       details = no_details, affectedPaths = [],
       suggestedAction = [CHR 0xE6, CHR 0xA3, CHR 0x80, CHR 0xE6, CHR 0x9F, CHR 0xA5]
         @ '' peerDependencies '' @ [CHR 0xE9, CHR 0x85, CHR 0x8D, CHR 0xE7, CHR 0xBD, CHR 0xAE] \<rparr>"

definition peer_warning :: "(nat \<Rightarrow> string) \<Rightarrow> string \<Rightarrow> issues_state \<Rightarrow> issues_state" where
  "peer_warning rnd w st = push_issue rnd (peer_warning_issue w) st"

text \<open>
  \<open>execCommand\<close> and \<open>JSON.parse\<close> are collaborators: \<open>exec\<close> maps a command line to the
  result of running it in the project directory, and \<open>parse\<close> is \<^const>\<open>None\<close> where
  \<open>JSON.parse\<close> throws (the \<open>catch\<close> of the source ignores that).
\<close>

definition detectPeerDependencyIssues ::
  "(nat \<Rightarrow> string) \<Rightarrow> (string \<Rightarrow> exec_result) \<Rightarrow> (string \<Rightarrow> npm_ls option) \<Rightarrow> string \<Rightarrow> nat
    \<Rightarrow> issues_state" where
  "detectPeerDependencyIssues rnd exec parse pm k =
     (case (if pm = ''npm'' then Some ''npm ls --json 2>&1''
            else if pm = ''pnpm'' then Some ''pnpm list --json 2>&1''
            else if pm = ''yarn'' then Some ''yarn list --json 2>&1''
            else None) of
        None \<Rightarrow> ([], k)
      | Some command \<Rightarrow>
          (let result = exec command;
               st1 = (if pm = ''npm'' \<and> truthy (stdout result)
                      then (case parse (stdout result) of
                              None \<Rightarrow> ([], k)
                            | Some data \<Rightarrow>
                                (case problems data of
                                   None \<Rightarrow> ([], k)
                                 | Some ps \<Rightarrow> fold (peer_problem rnd) ps ([], k)))
                      else ([], k))
           in if truthy (stderr result)
              then fold (peer_warning rnd) (peerWarnings 0 (stderr result)) st1
              else st1))"

subsection \<open>\<open>detectMultipleVersions\<close>\<close>

text \<open>\<open>versionMap\<close> is a \<open>Map<string, Set<string>>\<close>.\<close>

type_synonym version_map = "(string \<times> string list) list"

text \<open>
  \<open>collectNpmVersions\<close> walks the tree of \<open>npm ls\<close>. Its argument is the field
  \<open>data.dependencies\<close>; \<open>collectNpmDep\<close> is the body of the loop for one entry. A missing
  or empty \<open>version\<close> is falsy and adds nothing.
\<close>

function collectNpmVersions :: "(string \<times> npm_dep) list option \<Rightarrow> version_map \<Rightarrow> version_map"
  and collectNpmEntries :: "(string \<times> npm_dep) list \<Rightarrow> version_map \<Rightarrow> version_map"
  and collectNpmDep :: "string \<Rightarrow> npm_dep \<Rightarrow> version_map \<Rightarrow> version_map" where
  "collectNpmVersions None versionMap = versionMap"
| "collectNpmVersions (Some entries) versionMap = collectNpmEntries entries versionMap"
| "collectNpmEntries [] versionMap = versionMap"
| "collectNpmEntries ((name, dep) # rest) versionMap =
     collectNpmEntries rest (collectNpmDep name dep versionMap)"
| "collectNpmDep name (NpmDep ver deps) versionMap =
     collectNpmVersions deps
       (case ver of
          None \<Rightarrow> versionMap
        | Some v \<Rightarrow>
            if truthy v
            then obj_set versionMap name
                   (set_add (case map_of versionMap name of None \<Rightarrow> [] | Some versions \<Rightarrow> versions) v)
            else versionMap)"
  by pat_completeness auto
termination
  by (relation "measure (\<lambda>x. case x of
      Inl (d, vm) \<Rightarrow> size_option (size_list (size_prod (\<lambda>_. 0) size)) d
    | Inr (Inl (es, vm)) \<Rightarrow> size_list (size_prod (\<lambda>_. 0) size) es
    | Inr (Inr (n, d, vm)) \<Rightarrow> size d)") auto

definition multiple_versions_issue :: "string \<Rightarrow> string list \<Rightarrow> string \<Rightarrow> conflict_issue" where
  "multiple_versions_issue name versionList i =
     \<lparr> id' = i, type' = multiple_versions,
       severity = (if length versionList > 2 then warning else info),
       package = name,
       message = [CHR 0xE5, CHR 0x8C, CHR 0x85] @ '' '' @ name @ '' ''
         @ [CHR 0xE5, CHR 0xAD, CHR 0x98, CHR 0xE5, CHR 0x9C, CHR 0xA8] @ '' ''
         @ show_nat (length versionList) @ '' ''
         @ [CHR 0xE4, CHR 0xB8, CHR 0xAA, CHR 0xE7, CHR 0x89, CHR 0x88, CHR 0xE6, CHR 0x9C, CHR 0xAC]
         @ '': '' @ join '', '' versionList,
       details = multipleVersions (map (\<lambda>v. (v, [])) versionList),
       affectedPaths = [],
       suggestedAction = [CHR 0xE8, CHR 0x80, CHR 0x83, CHR 0xE8, CHR 0x99, CHR 0x91, CHR 0xE7, CHR 0xBB,
         CHR 0x9F, CHR 0xE4, CHR 0xB8, CHR 0x80] @ '' '' @ name @ '' ''
         @ [CHR 0xE7, CHR 0x89, CHR 0x88, CHR 0xE6, CHR 0x9C, CHR 0xAC, CHR 0xEF, CHR 0xBC, CHR 0x8C,
            CHR 0xE4, CHR 0xBD, CHR 0xBF, CHR 0xE7, CHR 0x94, CHR 0xA8]
         @ '' overrides/resolutions ''
         @ [CHR 0xE6, CHR 0x88, CHR 0x96, CHR 0xE5, CHR 0x8D, CHR 0x87, CHR 0xE7, CHR 0xBA, CHR 0xA7,
            CHR 0xE4, CHR 0xBE, CHR 0x9D, CHR 0xE8, CHR 0xB5, CHR 0x96] \<rparr>"

definition multiple_versions_entry :: "(nat \<Rightarrow> string) \<Rightarrow> string \<times> string list \<Rightarrow> issues_state \<Rightarrow> issues_state" where
  "multiple_versions_entry rnd entry st =
     (case entry of (name, versions) \<Rightarrow>
        if length versions > 1 then push_issue rnd (multiple_versions_issue name versions) st else st)"

text \<open>Only the output of npm is parsed; for pnpm and yarn the command runs and
  \<open>versionMap\<close> stays empty.\<close>

definition detectMultipleVersions ::
  "(nat \<Rightarrow> string) \<Rightarrow> (string \<Rightarrow> exec_result) \<Rightarrow> (string \<Rightarrow> npm_ls option) \<Rightarrow> string \<Rightarrow> nat
    \<Rightarrow> issues_state" where
  "detectMultipleVersions rnd exec parse pm k =
     (case (if pm = ''npm'' then Some ''npm ls --json --all''
            else if pm = ''pnpm'' then Some ''pnpm list --json --depth=Infinity''
            else if pm = ''yarn'' then Some ''yarn list --json''
            else None) of
        None \<Rightarrow> ([], k)
      | Some command \<Rightarrow>
          (let result = exec command;
               versionMap = (if pm = ''npm'' \<and> truthy (stdout result)
                             then (case parse (stdout result) of
                                     None \<Rightarrow> []
                                   | Some data \<Rightarrow> collectNpmVersions (ls_dependencies data) [])
                             else [])
           in fold (multiple_versions_entry rnd) versionMap ([], k)))"

subsection \<open>\<open>detectWorkspaceMismatch\<close>\<close>

text \<open>\<open>depVersions\<close> is a \<open>Map<string, Map<string, string[]>>\<close>: package name, then
  requirement string, then the names of the workspaces that declare it.\<close>

type_synonym dep_versions = "(string \<times> (string \<times> string list) list) list"

text \<open>\<open>{...dependencies, ...devDependencies}\<close>: a missing field spreads nothing, and
  a development dependency replaces a production dependency of the same name.\<close>

definition allDeps :: "package_json \<Rightarrow> (string \<times> string) list" where
  "allDeps pj =
     obj_assign (obj_assign [] (case dependencies pj of None \<Rightarrow> [] | Some d \<Rightarrow> d))
       (case devDependencies pj of None \<Rightarrow> [] | Some d \<Rightarrow> d)"

definition collect_workspace_dep :: "string \<Rightarrow> string \<times> string \<Rightarrow> dep_versions \<Rightarrow> dep_versions" where
  "collect_workspace_dep wsName entry depVersions =
     (case entry of (name, version) \<Rightarrow>
       (let pkgMap = (case map_of depVersions name of None \<Rightarrow> [] | Some m \<Rightarrow> m);
            workspacesList = (case map_of pkgMap version of None \<Rightarrow> [] | Some l \<Rightarrow> l)
        in obj_set depVersions name (obj_set pkgMap version (workspacesList @ [wsName]))))"

definition collect_workspace :: "workspace_info \<Rightarrow> dep_versions \<Rightarrow> dep_versions" where
  "collect_workspace ws depVersions =
     fold (collect_workspace_dep (ws_name ws)) (allDeps (packageJson ws)) depVersions"

definition workspace_mismatch_issue :: "string \<Rightarrow> (string \<times> string list) list \<Rightarrow> string \<Rightarrow> conflict_issue" where
  "workspace_mismatch_issue pkgName versionWorkspaces i =
     \<lparr> id' = i, type' = workspace_mismatch, severity = warning, package = pkgName,
       message = [CHR 0xE5, CHR 0x8C, CHR 0x85] @ '' '' @ pkgName @ '' ''
         @ [CHR 0xE5, CHR 0x9C, CHR 0xA8, CHR 0xE4, CHR 0xB8, CHR 0x8D, CHR 0xE5, CHR 0x90, CHR 0x8C]
         @ '' workspace ''
         @ [CHR 0xE4, CHR 0xB8, CHR 0xAD, CHR 0xE4, CHR 0xBD, CHR 0xBF, CHR 0xE7, CHR 0x94, CHR 0xA8,
            CHR 0xE4, CHR 0xBA, CHR 0x86, CHR 0xE4, CHR 0xB8, CHR 0x8D, CHR 0xE5, CHR 0x90, CHR 0x8C,
            CHR 0xE7, CHR 0x89, CHR 0x88, CHR 0xE6, CHR 0x9C, CHR 0xAC],
       details = workspaceMismatch
         (map (\<lambda>(version, wsNames). (join '', '' wsNames, version, [version])) versionWorkspaces),
       affectedPaths = concat (map snd versionWorkspaces),
       suggestedAction = [CHR 0xE7, CHR 0xBB, CHR 0x9F, CHR 0xE4, CHR 0xB8, CHR 0x80] @ '' '' @ pkgName
         @ '' '' @ [CHR 0xE5, CHR 0x9C, CHR 0xA8, CHR 0xE6, CHR 0x89, CHR 0x80, CHR 0xE6, CHR 0x9C, CHR 0x89]
         @ '' workspace ''
         @ [CHR 0xE4, CHR 0xB8, CHR 0xAD, CHR 0xE7, CHR 0x9A, CHR 0x84, CHR 0xE7, CHR 0x89, CHR 0x88,
            CHR 0xE6, CHR 0x9C, CHR 0xAC] \<rparr>"

text \<open>The source also fills a local array of (workspace, version) pairs that no record
  reads; the record itself carries one entry per requirement string, with the names of its
  workspaces joined by a comma.\<close>

definition workspace_mismatch_entry ::
  "(nat \<Rightarrow> string) \<Rightarrow> string \<times> (string \<times> string list) list \<Rightarrow> issues_state \<Rightarrow> issues_state" where
  "workspace_mismatch_entry rnd entry st =
     (case entry of (pkgName, versionWorkspaces) \<Rightarrow>
        if length versionWorkspaces > 1
        then push_issue rnd (workspace_mismatch_issue pkgName versionWorkspaces) st
        else st)"

definition detectWorkspaceMismatch ::
  "(nat \<Rightarrow> string) \<Rightarrow> workspace_info list \<Rightarrow> package_json \<Rightarrow> nat \<Rightarrow> issues_state" where
  "detectWorkspaceMismatch rnd workspaces rootPackageJson k =
     fold (workspace_mismatch_entry rnd) (fold collect_workspace workspaces []) ([], k)"

subsection \<open>\<open>detectOverrideRisks\<close>\<close>

definition override_risk_issue :: "string \<Rightarrow> string \<Rightarrow> string \<Rightarrow> string \<Rightarrow> conflict_issue" where
  "override_risk_issue pkg pkgName forcedVersion i =
     \<lparr> id' = i, type' = override_risk, severity = info, package = pkgName,
       message = [CHR 0xE5, CHR 0x8C, CHR 0x85] @ '' '' @ pkgName @ '' ''
         @ [CHR 0xE8, CHR 0xA2, CHR 0xAB, CHR 0xE5, CHR 0xBC, CHR 0xBA, CHR 0xE5, CHR 0x88, CHR 0xB6,
            CHR 0xE8, CHR 0xA6, CHR 0x86, CHR 0xE7, CHR 0x9B, CHR 0x96, CHR 0xE4, CHR 0xB8, CHR 0xBA,
            CHR 0xE7, CHR 0x89, CHR 0x88, CHR 0xE6, CHR 0x9C, CHR 0xAC] @ '' '' @ forcedVersion,
       details = overrideRisk pkgName forcedVersion [] True,
       affectedPaths = [pkg],
       suggestedAction = [CHR 0xE5, CHR 0xAE, CHR 0x9A, CHR 0xE6, CHR 0x9C, CHR 0x9F, CHR 0xE6, CHR 0xA3,
         CHR 0x80, CHR 0xE6, CHR 0x9F, CHR 0xA5] @ '' '' @ pkgName @ '' '' @ [CHR 0xE7, CHR 0x9A, CHR 0x84]
         @ '' override ''
         @ [CHR 0xE6, CHR 0x98, CHR 0xAF, CHR 0xE5, CHR 0x90, CHR 0xA6, CHR 0xE4, CHR 0xBB, CHR 0x8D,
            CHR 0xE7, CHR 0x84, CHR 0xB6, CHR 0xE9, CHR 0x9C, CHR 0x80, CHR 0xE8, CHR 0xA6, CHR 0x81] \<rparr>"

text \<open>\<open>pkg.split(">").pop() || pkg\<close>: the segment behind the last \<open>>\<close>, or the whole key
  when that segment is empty.\<close>

definition override_pkgName :: "string \<Rightarrow> string" where
  "override_pkgName pkg = (let l = last (split CHR ''>'' pkg) in if truthy l then l else pkg)"

definition override_entry :: "(nat \<Rightarrow> string) \<Rightarrow> string \<times> string \<Rightarrow> issues_state \<Rightarrow> issues_state" where
  "override_entry rnd entry st =
     (case entry of (pkg, forcedVersion) \<Rightarrow>
        push_issue rnd (override_risk_issue pkg (override_pkgName pkg) forcedVersion) st)"

definition detectOverrideRisks ::
  "(nat \<Rightarrow> string) \<Rightarrow> (string \<times> string) list \<Rightarrow> package_json \<Rightarrow> nat \<Rightarrow> issues_state" where
  "detectOverrideRisks rnd overrides_obj pj k = fold (override_entry rnd) overrides_obj ([], k)"

subsection \<open>\<open>detectEngineMismatch\<close>\<close>

definition engine_mismatch_issue :: "string \<Rightarrow> string \<Rightarrow> string \<Rightarrow> conflict_issue" where
  "engine_mismatch_issue currentNode req i =
     \<lparr> id' = i, type' = engine_mismatch, severity = error, package = ''node'',
       message = [CHR 0xE5, CHR 0xBD, CHR 0x93, CHR 0xE5, CHR 0x89, CHR 0x8D] @ '' Node.js ''
         @ [CHR 0xE7, CHR 0x89, CHR 0x88, CHR 0xE6, CHR 0x9C, CHR 0xAC] @ '' '' @ currentNode @ '' ''
         @ [CHR 0xE4, CHR 0xB8, CHR 0x8D, CHR 0xE6, CHR 0xBB, CHR 0xA1, CHR 0xE8, CHR 0xB6, CHR 0xB3,
            CHR 0xE8, CHR 0xA6, CHR 0x81, CHR 0xE6, CHR 0xB1, CHR 0x82] @ '' '' @ req,
       details = engineMismatch ''node'' req currentNode ''node'',
       affectedPaths = [],
       suggestedAction = [CHR 0xE5, CHR 0x8D, CHR 0x87, CHR 0xE7, CHR 0xBA, CHR 0xA7] @ '' Node.js ''
         @ [CHR 0xE5, CHR 0x88, CHR 0xB0, CHR 0xE6, CHR 0xBB, CHR 0xA1, CHR 0xE8, CHR 0xB6, CHR 0xB3]
         @ '' '' @ req @ '' ''
         @ [CHR 0xE7, CHR 0x9A, CHR 0x84, CHR 0xE7, CHR 0x89, CHR 0x88, CHR 0xE6, CHR 0x9C, CHR 0xAC] \<rparr>"

text \<open>The declared range is compared with \<^const>\<open>satisfiesVersion\<close>, that is with the
  semver package.\<close>

definition detectEngineMismatch ::
  "(nat \<Rightarrow> string) \<Rightarrow> satisfies_fn \<Rightarrow> string \<Rightarrow> package_json \<Rightarrow> nat \<Rightarrow> issues_state" where
  "detectEngineMismatch rnd sat process_version pj k =
     (case engines_node pj of
        None \<Rightarrow> ([], k)
      | Some req \<Rightarrow>
          if truthy req
          then (let currentNode = getCurrentNodeVersion process_version
                in if \<not> satisfiesVersion sat currentNode req
                   then push_issue rnd (engine_mismatch_issue currentNode req) ([], k)
                   else ([], k))
          else ([], k))"

subsection \<open>\<open>detectConflicts\<close>\<close>

record detect_conflicts_input =
  projectPath :: string
  checkTypes :: "conflict_type list"
  severity_filter :: string

record summary =
  total :: nat
  errors :: nat
  warnings :: nat
  infos :: nat
  byType :: "(conflict_type \<times> nat) list"

record detect_conflicts_output =
  hasIssues :: bool
  summary :: summary
  issues :: "conflict_issue list"
  analysisTimestamp :: string

text \<open>
  What \<open>detectConflicts\<close> obtains from outside: the file system (\<open>readJsonFile\<close>,
  \<open>detectPackageManager\<close>, \<open>detectWorkspaces\<close> followed by \<open>getWorkspacePackages\<close>), the
  package manager's commands, \<open>JSON.parse\<close>, \<open>path.join\<close>, \<open>process.version\<close>, the semver
  package and the clock.
\<close>

record collaborators =
  path_join :: "string \<Rightarrow> string \<Rightarrow> string"
  readJsonFile :: "string \<Rightarrow> package_json option"
  detectPackageManager :: "string \<Rightarrow> string"
  getWorkspacePackages :: "string \<Rightarrow> string \<Rightarrow> workspace_info list"
  execCommand :: "string \<Rightarrow> string \<Rightarrow> exec_result"
  JSON_parse :: "string \<Rightarrow> npm_ls option"
  process_version :: string
  semver_lib_satisfies :: satisfies_fn
  now :: string

text \<open>\<open>issues.push(...found)\<close> after a detector has run from the current identifier
  count.\<close>

definition run_check :: "bool \<Rightarrow> (nat \<Rightarrow> issues_state) \<Rightarrow> issues_state \<Rightarrow> issues_state" where
  "run_check enabled detector st =
     (case st of (found_so_far, k) \<Rightarrow>
        if enabled then (case detector k of (found, k') \<Rightarrow> (found_so_far @ found, k'))
        else (found_so_far, k))"

text \<open>The five checks in the order of the source.\<close>

definition collect_issues ::
  "(nat \<Rightarrow> string) \<Rightarrow> collaborators \<Rightarrow> detect_conflicts_input \<Rightarrow> package_json \<Rightarrow> conflict_issue list" where
  "collect_issues rnd env input pj =
     (let pm = detectPackageManager env (projectPath input);
          workspacePackages = getWorkspacePackages env (projectPath input) pm;
          exec = (\<lambda>command. execCommand env command (projectPath input));
          st1 = run_check (peer_dependency \<in> set (checkTypes input))
                  (detectPeerDependencyIssues rnd exec (JSON_parse env) pm) ([], 0);
          st2 = run_check (multiple_versions \<in> set (checkTypes input))
                  (detectMultipleVersions rnd exec (JSON_parse env) pm) st1;
          st3 = run_check (workspace_mismatch \<in> set (checkTypes input) \<and> length workspacePackages > 0)
                  (detectWorkspaceMismatch rnd workspacePackages pj) st2;
          st4 = run_check (override_risk \<in> set (checkTypes input))
                  (detectOverrideRisks rnd (getOverrides pj pm) pj) st3;
          st5 = run_check (engine_mismatch \<in> set (checkTypes input))
                  (detectEngineMismatch rnd (semver_lib_satisfies env) (process_version env) pj) st4
      in fst st5)"

definition filter_severity :: "string \<Rightarrow> conflict_issue list \<Rightarrow> conflict_issue list" where
  "filter_severity sev found =
     (if sev = ''error'' then filter (\<lambda>i. severity i = error) found
      else if sev = ''warning'' then filter (\<lambda>i. severity i \<noteq> info) found
      else found)"

text \<open>\<open>byType[issue.type] = (byType[issue.type] || 0) + 1\<close>.\<close>

definition count_by_type :: "conflict_issue \<Rightarrow> (conflict_type \<times> nat) list \<Rightarrow> (conflict_type \<times> nat) list" where
  "count_by_type issue bt =
     obj_set bt (type' issue) ((case map_of bt (type' issue) of None \<Rightarrow> 0 | Some c \<Rightarrow> c) + 1)"

definition summarize :: "string \<Rightarrow> conflict_issue list \<Rightarrow> detect_conflicts_output" where
  "summarize timestamp filteredIssues =
     \<lparr> hasIssues = (length filteredIssues > 0),
       summary = \<lparr> total = length filteredIssues,
                   errors = length (filter (\<lambda>i. severity i = error) filteredIssues),
                   warnings = length (filter (\<lambda>i. severity i = warning) filteredIssues),
                   infos = length (filter (\<lambda>i. severity i = info) filteredIssues),
                   byType = fold count_by_type filteredIssues [] \<rparr>,
       issues = filteredIssues,
       analysisTimestamp = timestamp \<rparr>"

definition detectConflicts ::
  "(nat \<Rightarrow> string) \<Rightarrow> collaborators \<Rightarrow> detect_conflicts_input \<Rightarrow> js_error + detect_conflicts_output" where
  "detectConflicts rnd env input =
     (let packageJsonPath = path_join env (projectPath input) ''package.json''
      in case readJsonFile env packageJsonPath of
           None \<Rightarrow> Inl (Error ([CHR 0xE6, CHR 0x97, CHR 0xA0, CHR 0xE6, CHR 0xB3, CHR 0x95, CHR 0xE8,
                     CHR 0xAF, CHR 0xBB, CHR 0xE5, CHR 0x8F, CHR 0x96] @ '' package.json: ''
                     @ packageJsonPath))
         | Some pj \<Rightarrow>
             Inr (summarize (now env)
                    (filter_severity (severity_filter input) (collect_issues rnd env input pj))))"

section \<open>tools/detect-environment.ts\<close>





section \<open>tools/suggest-solutions.ts\<close>

datatype step_action = upgrade | downgrade | add | remove | override | dedupe | regenerate_lock

datatype risk_level = low | medium | high

datatype effort_level = trivial | minor | moderate | major

record solution_step =
  action :: step_action
  target :: string
  to :: "string option"
  file' :: string
  field :: "string option"
  command :: "string option"
  manual :: bool

record risk =
  level :: risk_level
  factors :: "string list"
  mitigations :: "string list"

record compatibility =
  breakingChanges :: bool
  affectedPackages :: "string list"
  testingRequired :: "string list"

record recommendation =
  score :: nat
  reasons :: "string list"

record solution =
  solution_id :: string
  forIssue :: string
  title :: string
  description :: string
  steps :: "solution_step list"
  risk :: risk
  compatibility :: compatibility
  recommendation :: recommendation
  estimatedEffort :: effort_level

record matrix_entry =
  solutionId :: string
  m_title :: string
  m_risk :: nat
  m_effort :: nat
  m_recommendation :: nat

record comparison =
  matrix :: "matrix_entry list"
  recommended :: "string option"
  reason :: string

record constraints =
  allowMajorUpgrade :: "bool option"
  preferredVersions :: "(string \<times> string) list option"

text \<open>The registry document, as far as \<open>generatePackageSolutions\<close> reads it.\<close>

record registry_package_document =
  dist_tags :: "(string \<times> string) list"

text \<open>\<open>from.match(/\d+/)\<close>: the first run of digits.\<close>

definition first_digits :: "string \<Rightarrow> string option" where
  "first_digits s =
     (let r = dropWhile (\<lambda>c. \<not> is_digit c) s in if r = [] then None else Some (takeWhile is_digit r))"

definition isMajorUpgrade :: "string option \<Rightarrow> string \<Rightarrow> bool" where
  "isMajorUpgrade from_version to_version =
     (case from_version of
        None \<Rightarrow> False
      | Some f \<Rightarrow>
          if \<not> truthy f then False
          else (case (first_digits f, first_digits to_version) of
                  (Some fromMatch, Some toMatch) \<Rightarrow> digits_value toMatch > digits_value fromMatch
                | _ \<Rightarrow> False))"

definition getOverrideField :: "string \<Rightarrow> string" where
  "getOverrideField pm = (if pm = ''yarn'' then ''resolutions'' else ''overrides'')"

definition getLockFileName :: "string \<Rightarrow> string" where
  "getLockFileName pm =
     (if pm = ''npm'' then ''package-lock.json''
      else if pm = ''pnpm'' then ''pnpm-lock.yaml''
      else if pm = ''yarn'' then ''yarn.lock''
      else ''package-lock.json'')"

definition getInstallCommand :: "string \<Rightarrow> string" where
  "getInstallCommand pm = pm @ '' install''"

definition findWorkspacesUsingPackage :: "workspace_info list \<Rightarrow> string \<Rightarrow> workspace_info list" where
  "findWorkspacesUsingPackage workspaces packageName =
     filter (\<lambda>ws. map_of (allDeps (packageJson ws)) packageName \<noteq> None) workspaces"

definition riskToNumber :: "risk_level \<Rightarrow> nat" where
  "riskToNumber r = (case r of low \<Rightarrow> 1 | medium \<Rightarrow> 2 | high \<Rightarrow> 3)"

definition effortToNumber :: "effort_level \<Rightarrow> nat" where
  "effortToNumber e = (case e of trivial \<Rightarrow> 1 | minor \<Rightarrow> 2 | moderate \<Rightarrow> 3 | major \<Rightarrow> 4)"

definition generateUpgradeSteps :: "string \<Rightarrow> string \<Rightarrow> bool \<Rightarrow> bool \<Rightarrow> string \<Rightarrow> solution_step list" where
  "generateUpgradeSteps packageName version isDirectDep isDev pm =
     (if isDirectDep
      then [\<lparr> action = upgrade, target = packageName, to = Some version, file' = ''package.json'',
               field = Some (if isDev then ''devDependencies'' else ''dependencies''),
               command = Some
                 (if pm = ''npm'' then ''npm install '' @ packageName @ ''@'' @ version @ '' ''
                     @ (if isDev then ''--save-dev'' else ''--save'')
                  else if pm = ''pnpm'' then ''pnpm add '' @ packageName @ ''@'' @ version @ '' ''
                     @ (if isDev then ''-D'' else [])
                  else if pm = ''yarn'' then ''yarn add '' @ packageName @ ''@'' @ version @ '' ''
                     @ (if isDev then ''-D'' else [])
                  else ''npm install '' @ packageName @ ''@'' @ version),
               manual = False \<rparr>]
      else [\<lparr> action = override, target = packageName, to = Some version, file' = ''package.json'',
               field = Some (getOverrideField pm), command = None, manual = True \<rparr>])"

text \<open>As for the issues: the array \<open>solutions\<close> with the number of identifiers
  generated so far.\<close>

type_synonym solutions_state = "solution list \<times> nat"

definition push_solution :: "(nat \<Rightarrow> string) \<Rightarrow> (string \<Rightarrow> solution) \<Rightarrow> solutions_state \<Rightarrow> solutions_state" where
  "push_solution rnd mk st =
     (case st of (solutions, k) \<Rightarrow> (case generateId rnd k of (i, k') \<Rightarrow> (solutions @ [mk i], k')))"

text \<open>\<open>a || b\<close> on optional strings.\<close>

definition or_else :: "string option \<Rightarrow> string option \<Rightarrow> string option" where
  "or_else a b = (case a of Some s \<Rightarrow> if truthy s then Some s else b | None \<Rightarrow> b)"

definition or_literal :: "string option \<Rightarrow> string \<Rightarrow> string" where
  "or_literal a d = (case a of Some s \<Rightarrow> if truthy s then s else d | None \<Rightarrow> d)"

definition upgrade_latest_solution ::
  "string \<Rightarrow> string option \<Rightarrow> string \<Rightarrow> bool \<Rightarrow> bool \<Rightarrow> bool \<Rightarrow> string \<Rightarrow> string \<Rightarrow> solution" where
  "upgrade_latest_solution packageName currentVersion latestVersion isBreaking isDirectDep isDev pm i =
     \<lparr> solution_id = i, forIssue = packageName,
       title = ([CHR 0xE5, CHR 0x8D, CHR 0x87, CHR 0xE7, CHR 0xBA, CHR 0xA7] @ '' '' @ packageName
          @ '' '' @ [CHR 0xE5, CHR 0x88, CHR 0xB0, CHR 0xE6, CHR 0x9C, CHR 0x80, CHR 0xE6,
          CHR 0x96, CHR 0xB0, CHR 0xE7, CHR 0x89, CHR 0x88, CHR 0xE6, CHR 0x9C, CHR 0xAC]),
       description = ([CHR 0xE5, CHR 0xB0, CHR 0x86] @ '' '' @ packageName @ '' '' @ [CHR 0xE4, CHR
          0xBB, CHR 0x8E] @ '' '' @ or_literal currentVersion 
          [CHR 0xE6, CHR 0x9C, CHR 0xAA, CHR 0xE5, CHR 0xAE, CHR 0x89, CHR 0xE8, CHR 0xA3, CHR 0x85] @ '' '' @ [CHR
          0xE5, CHR 0x8D, CHR 0x87, CHR 0xE7, CHR 0xBA, CHR 0xA7, CHR 0xE5, CHR 0x88, CHR
          0xB0] @ '' '' @ latestVersion),
       steps = generateUpgradeSteps packageName latestVersion isDirectDep isDev pm,
       risk = \<lparr> level = (if isBreaking then high else low),
                factors = (if isBreaking then [([CHR 0xE4, CHR 0xB8, CHR 0xBB, CHR 0xE7, CHR 0x89, CHR 0x88, CHR 0xE6, CHR 0x9C,
          CHR 0xAC, CHR 0xE5, CHR 0x8D, CHR 0x87, CHR 0xE7, CHR 0xBA, CHR 0xA7, CHR 0xE5,
          CHR 0x8F, CHR 0xAF, CHR 0xE8, CHR 0x83, CHR 0xBD, CHR 0xE5, CHR 0x8C, CHR 0x85,
          CHR 0xE5, CHR 0x90, CHR 0xAB, CHR 0xE7, CHR 0xA0, CHR 0xB4, CHR 0xE5, CHR 0x9D,
          CHR 0x8F, CHR 0xE6, CHR 0x80, CHR 0xA7, CHR 0xE5, CHR 0x8F, CHR 0x98, CHR 0xE6,
          CHR 0x9B, CHR 0xB4])] else []),
                mitigations = [([CHR 0xE8, CHR 0xBF, CHR 0x90, CHR 0xE8, CHR 0xA1, CHR 0x8C, CHR 0xE6, CHR 0xB5,
          CHR 0x8B, CHR 0xE8, CHR 0xAF, CHR 0x95, CHR 0xE5, CHR 0xA5, CHR 0x97, CHR 0xE4,
          CHR 0xBB, CHR 0xB6]), ([CHR 0xE6, CHR 0xA3, CHR 0x80, CHR 0xE6, CHR 0x9F, CHR 0xA5] @ '' changelog'')] \<rparr>,
       compatibility = \<lparr> breakingChanges = isBreaking, affectedPackages = [packageName],
                         testingRequired = [''unit tests'', ''integration tests''] \<rparr>,
       recommendation = \<lparr> score = (if isBreaking then 60 else 90),
                          reasons = (if isBreaking
                                     then [([CHR 0xE6, CHR 0x9C, CHR 0x80, CHR 0xE6, CHR 0x96, CHR 0xB0, CHR 0xE7, CHR 0x89,
          CHR 0x88, CHR 0xE6, CHR 0x9C, CHR 0xAC]), ([CHR 0xE4, CHR 0xBD, CHR 0x86, CHR 0xE5, CHR 0x8C, CHR 0x85, CHR 0xE5, CHR 0x90,
          CHR 0xAB, CHR 0xE4, CHR 0xB8, CHR 0xBB, CHR 0xE7, CHR 0x89, CHR 0x88, CHR 0xE6,
          CHR 0x9C, CHR 0xAC, CHR 0xE5, CHR 0x8D, CHR 0x87, CHR 0xE7, CHR 0xBA, CHR 0xA7])]
                                     else [([CHR 0xE6, CHR 0x9C, CHR 0x80, CHR 0xE6, CHR 0x96, CHR 0xB0, CHR 0xE7, CHR 0x89,
          CHR 0x88, CHR 0xE6, CHR 0x9C, CHR 0xAC]), ([CHR 0xE9, CHR 0x9D, CHR 0x9E, CHR 0xE7, CHR 0xA0, CHR 0xB4, CHR 0xE5, CHR 0x9D,
          CHR 0x8F, CHR 0xE6, CHR 0x80, CHR 0xA7, CHR 0xE5, CHR 0x8D, CHR 0x87, CHR 0xE7,
          CHR 0xBA, CHR 0xA7])]) \<rparr>,
       estimatedEffort = (if isBreaking then moderate else minor) \<rparr>"

definition upgrade_target_solution ::
  "string \<Rightarrow> string option \<Rightarrow> string \<Rightarrow> bool \<Rightarrow> bool \<Rightarrow> bool \<Rightarrow> string \<Rightarrow> string \<Rightarrow> solution" where
  "upgrade_target_solution packageName currentVersion targetVersion isBreaking isDirectDep isDev pm i =
     \<lparr> solution_id = i, forIssue = packageName,
       title = ([CHR 0xE5, CHR 0x8D, CHR 0x87, CHR 0xE7, CHR 0xBA, CHR 0xA7] @ '' '' @ packageName
          @ '' '' @ [CHR 0xE5, CHR 0x88, CHR 0xB0] @ '' '' @ targetVersion),
       description = ([CHR 0xE5, CHR 0xB0, CHR 0x86] @ '' '' @ packageName @ '' '' @ [CHR 0xE4, CHR
          0xBB, CHR 0x8E] @ '' '' @ or_literal currentVersion 
          [CHR 0xE6, CHR 0x9C, CHR 0xAA, CHR 0xE5, CHR 0xAE, CHR 0x89, CHR 0xE8, CHR 0xA3, CHR 0x85] @ '' '' @ [CHR
          0xE5, CHR 0x8D, CHR 0x87, CHR 0xE7, CHR 0xBA, CHR 0xA7, CHR 0xE5, CHR 0x88, CHR
          0xB0, CHR 0xE6, CHR 0x8C, CHR 0x87, CHR 0xE5, CHR 0xAE, CHR 0x9A, CHR 0xE7, CHR
          0x89, CHR 0x88, CHR 0xE6, CHR 0x9C, CHR 0xAC] @ '' '' @ targetVersion),
       steps = generateUpgradeSteps packageName targetVersion isDirectDep isDev pm,
       risk = \<lparr> level = (if isBreaking then medium else low),
                factors = (if isBreaking then [([CHR 0xE4, CHR 0xB8, CHR 0xBB, CHR 0xE7, CHR 0x89, CHR 0x88, CHR 0xE6, CHR 0x9C,
          CHR 0xAC, CHR 0xE5, CHR 0x8F, CHR 0x98, CHR 0xE6, CHR 0x9B, CHR 0xB4])] else []),
                mitigations = [([CHR 0xE8, CHR 0xBF, CHR 0x90, CHR 0xE8, CHR 0xA1, CHR 0x8C, CHR 0xE6, CHR 0xB5,
          CHR 0x8B, CHR 0xE8, CHR 0xAF, CHR 0x95])] \<rparr>,
       compatibility = \<lparr> breakingChanges = isBreaking, affectedPackages = [packageName],
                         testingRequired = [''unit tests''] \<rparr>,
       recommendation = \<lparr> score = 75, reasons = [([CHR 0xE6, CHR 0x8C, CHR 0x87, CHR 0xE5, CHR 0xAE, CHR 0x9A, CHR 0xE7, CHR 0x89,
          CHR 0x88, CHR 0xE6, CHR 0x9C, CHR 0xAC]), ([CHR 0xE5, CHR 0x8F, CHR 0xAF, CHR 0xE6, CHR 0x8E, CHR 0xA7, CHR 0xE5, CHR 0x8D,
          CHR 0x87, CHR 0xE7, CHR 0xBA, CHR 0xA7])] \<rparr>,
       estimatedEffort = minor \<rparr>"

definition override_solution :: "string \<Rightarrow> string option \<Rightarrow> string \<Rightarrow> string \<Rightarrow> string \<Rightarrow> solution" where
  "override_solution packageName targetVersion latestVersion pm i =
     (let overrideField = getOverrideField pm in
      \<lparr> solution_id = i, forIssue = packageName,
        title = ([CHR 0xE4, CHR 0xBD, CHR 0xBF, CHR 0xE7, CHR 0x94, CHR 0xA8] @ '' '' @
          overrideField @ '' '' @ [CHR 0xE5, CHR 0xBC, CHR 0xBA, CHR 0xE5, CHR 0x88, CHR
          0xB6] @ '' '' @ packageName @ '' '' @ [CHR 0xE7, CHR 0x89, CHR 0x88, CHR 0xE6, CHR
          0x9C, CHR 0xAC]),
        description = ([CHR 0xE5, CHR 0x9C, CHR 0xA8] @ '' package.json '' @ [CHR 0xE4, CHR 0xB8, CHR
          0xAD, CHR 0xE6, CHR 0xB7, CHR 0xBB, CHR 0xE5, CHR 0x8A, CHR 0xA0] @ '' '' @
          overrideField @ '' '' @ [CHR 0xE9, CHR 0x85, CHR 0x8D, CHR 0xE7, CHR 0xBD, CHR
          0xAE, CHR 0xEF, CHR 0xBC, CHR 0x8C, CHR 0xE5, CHR 0xBC, CHR 0xBA, CHR 0xE5, CHR
          0x88, CHR 0xB6, CHR 0xE6, CHR 0x89, CHR 0x80, CHR 0xE6, CHR 0x9C, CHR 0x89, CHR
          0xE4, CHR 0xBE, CHR 0x9D, CHR 0xE8, CHR 0xB5, CHR 0x96, CHR 0xE4, CHR 0xBD, CHR
          0xBF, CHR 0xE7, CHR 0x94, CHR 0xA8, CHR 0xE7, CHR 0xBB, CHR 0x9F, CHR 0xE4, CHR
          0xB8, CHR 0x80, CHR 0xE7, CHR 0x89, CHR 0x88, CHR 0xE6, CHR 0x9C, CHR 0xAC]),
        steps = [\<lparr> action = override, target = packageName,
                    to = Some (or_literal targetVersion latestVersion), file' = ''package.json'',
                    field = Some overrideField, command = None, manual = True \<rparr>,
                 \<lparr> action = regenerate_lock, target = ''lock file'', to = None,
                    file' = getLockFileName pm, field = None,
                    command = Some (getInstallCommand pm), manual = False \<rparr>],
        risk = \<lparr> level = medium,
                 factors = [([CHR 0xE5, CHR 0xBC, CHR 0xBA, CHR 0xE5, CHR 0x88, CHR 0xB6, CHR 0xE7, CHR 0x89,
          CHR 0x88, CHR 0xE6, CHR 0x9C, CHR 0xAC, CHR 0xE5, CHR 0x8F, CHR 0xAF, CHR 0xE8,
          CHR 0x83, CHR 0xBD, CHR 0xE5, CHR 0xAF, CHR 0xBC, CHR 0xE8, CHR 0x87, CHR 0xB4,
          CHR 0xE4, CHR 0xBE, CHR 0x9D, CHR 0xE8, CHR 0xB5, CHR 0x96, CHR 0xE4, CHR 0xB8,
          CHR 0x8D, CHR 0xE5, CHR 0x85, CHR 0xBC, CHR 0xE5, CHR 0xAE, CHR 0xB9]), ([CHR 0xE9, CHR 0x9C, CHR 0x80, CHR 0xE8, CHR 0xA6, CHR 0x81, CHR 0xE9, CHR 0x95,
          CHR 0xBF, CHR 0xE6, CHR 0x9C, CHR 0x9F, CHR 0xE7, CHR 0xBB, CHR 0xB4, CHR 0xE6,
          CHR 0x8A, CHR 0xA4] @ '' override '' @ [CHR 0xE9, CHR 0x85, CHR 0x8D, CHR 0xE7,
          CHR 0xBD, CHR 0xAE])],
                 mitigations = [([CHR 0xE5, CHR 0xAE, CHR 0x9A, CHR 0xE6, CHR 0x9C, CHR 0x9F, CHR 0xE6, CHR 0xA3,
          CHR 0x80, CHR 0xE6, CHR 0x9F, CHR 0xA5] @ '' override '' @ [CHR 0xE6, CHR 0x98,
          CHR 0xAF, CHR 0xE5, CHR 0x90, CHR 0xA6, CHR 0xE4, CHR 0xBB, CHR 0x8D, CHR 0xE7,
          CHR 0x84, CHR 0xB6, CHR 0xE9, CHR 0x9C, CHR 0x80, CHR 0xE8, CHR 0xA6, CHR 0x81]), ([CHR 0xE7, CHR 0x9B, CHR 0x91, CHR 0xE6, CHR 0x8E, CHR 0xA7, CHR 0xE4, CHR 0xBE,
          CHR 0x9D, CHR 0xE8, CHR 0xB5, CHR 0x96, CHR 0xE6, CHR 0x9B, CHR 0xB4, CHR 0xE6,
          CHR 0x96, CHR 0xB0])] \<rparr>,
        compatibility = \<lparr> breakingChanges = False, affectedPackages = [packageName],
                          testingRequired = [''full regression''] \<rparr>,
        recommendation = \<lparr> score = 65, reasons = [([CHR 0xE5, CHR 0x8F, CHR 0xAF, CHR 0xE5, CHR 0xBF, CHR 0xAB, CHR 0xE9, CHR 0x80,
          CHR 0x9F, CHR 0xE8, CHR 0xA7, CHR 0xA3, CHR 0xE5, CHR 0x86, CHR 0xB3, CHR 0xE5,
          CHR 0xA4, CHR 0x9A, CHR 0xE7, CHR 0x89, CHR 0x88, CHR 0xE6, CHR 0x9C, CHR 0xAC,
          CHR 0xE9, CHR 0x97, CHR 0xAE, CHR 0xE9, CHR 0xA2, CHR 0x98]), ([CHR 0xE4, CHR 0xBD, CHR 0x86, CHR 0xE9, CHR 0x9C, CHR 0x80, CHR 0xE8, CHR 0xA6,
          CHR 0x81, CHR 0xE6, CHR 0x8C, CHR 0x81, CHR 0xE7, CHR 0xBB, CHR 0xAD, CHR 0xE7,
          CHR 0xBB, CHR 0xB4, CHR 0xE6, CHR 0x8A, CHR 0xA4])] \<rparr>,
        estimatedEffort = minor \<rparr>)"

definition workspace_unify_solution ::
  "(string \<Rightarrow> string \<Rightarrow> string) \<Rightarrow> string \<Rightarrow> string option \<Rightarrow> string option \<Rightarrow> workspace_info list
    \<Rightarrow> string \<Rightarrow> solution" where
  "workspace_unify_solution join_path packageName targetVersion latestVersion affectedWorkspaces i =
     \<lparr> solution_id = i, forIssue = packageName,
       title = ([CHR 0xE7, CHR 0xBB, CHR 0x9F, CHR 0xE4, CHR 0xB8, CHR 0x80] @ '' '' @ packageName
          @ '' '' @ [CHR 0xE5, CHR 0x9C, CHR 0xA8, CHR 0xE6, CHR 0x89, CHR 0x80, CHR 0xE6,
          CHR 0x9C, CHR 0x89] @ '' workspace '' @ [CHR 0xE4, CHR 0xB8, CHR 0xAD, CHR 0xE7,
          CHR 0x9A, CHR 0x84, CHR 0xE7, CHR 0x89, CHR 0x88, CHR 0xE6, CHR 0x9C, CHR 0xAC]),
       description = ([CHR 0xE5, CHR 0xB0, CHR 0x86, CHR 0xE6, CHR 0x89, CHR 0x80, CHR 0xE6, CHR 0x9C,
          CHR 0x89] @ '' workspace '' @ [CHR 0xE4, CHR 0xB8, CHR 0xAD, CHR 0xE7, CHR 0x9A,
          CHR 0x84] @ '' '' @ packageName @ '' '' @ [CHR 0xE7, CHR 0xBB, CHR 0x9F, CHR 0xE4,
          CHR 0xB8, CHR 0x80, CHR 0xE4, CHR 0xB8, CHR 0xBA] @ '' '' @ or_literal (or_else
          targetVersion latestVersion) 
          [CHR 0xE6, CHR 0x9C, CHR 0x80, CHR 0xE6, CHR 0x96, CHR 0xB0, CHR 0xE7, CHR 0x89, CHR 0x88, CHR 0xE6, CHR 0x9C, CHR 0xAC]),
       steps = map (\<lambda>ws. \<lparr> action = upgrade, target = packageName,
                             to = Some (or_literal (or_else targetVersion latestVersion) ''latest''),
                             file' = join_path (relativePath ws) ''package.json'',
                             field = None, command = None, manual = True \<rparr>) affectedWorkspaces,
       risk = \<lparr> level = low, factors = [], mitigations = [([CHR 0xE9, CHR 0x80, CHR 0x90, CHR 0xE4, CHR 0xB8, CHR 0xAA] @ '' workspace '' @
          [CHR 0xE6, CHR 0xB5, CHR 0x8B, CHR 0xE8, CHR 0xAF, CHR 0x95])] \<rparr>,
       compatibility = \<lparr> breakingChanges = False,
                         affectedPackages = map ws_name affectedWorkspaces,
                         testingRequired = map (\<lambda>ws. ws_name ws @ '' tests'') affectedWorkspaces \<rparr>,
       recommendation = \<lparr> score = 85, reasons = [([CHR 0xE7, CHR 0xBB, CHR 0x9F, CHR 0xE4, CHR 0xB8, CHR 0x80, CHR 0xE7, CHR 0x89,
          CHR 0x88, CHR 0xE6, CHR 0x9C, CHR 0xAC, CHR 0xE7, CHR 0xAE, CHR 0xA1, CHR 0xE7,
          CHR 0x90, CHR 0x86]), ([CHR 0xE5, CHR 0x87, CHR 0x8F, CHR 0xE5, CHR 0xB0, CHR 0x91, CHR 0xE4, CHR 0xBE,
          CHR 0x9D, CHR 0xE8, CHR 0xB5, CHR 0x96, CHR 0xE5, CHR 0xA4, CHR 0x8D, CHR 0xE6,
          CHR 0x9D, CHR 0x82, CHR 0xE5, CHR 0xBA, CHR 0xA6])] \<rparr>,
       estimatedEffort = (if length affectedWorkspaces > 3 then moderate else minor) \<rparr>"

text \<open>
  \<open>generatePackageSolutions\<close>. The registry answer \<open>packageInfo\<close> and \<open>path.join\<close> are
  collaborators. \<open>currentVersion\<close> is the first truthy declaration among \<open>dependencies\<close>
  and \<open>devDependencies\<close>, and the package is a direct dependency when that is defined.
\<close>

definition generatePackageSolutions ::
  "(nat \<Rightarrow> string) \<Rightarrow> (string \<Rightarrow> string \<Rightarrow> string) \<Rightarrow> registry_package_document option
    \<Rightarrow> string \<Rightarrow> string option \<Rightarrow> package_json \<Rightarrow> workspace_info list \<Rightarrow> string \<Rightarrow> string
    \<Rightarrow> constraints \<Rightarrow> nat \<Rightarrow> solutions_state" where
  "generatePackageSolutions rnd join_path packageInfo packageName targetVersion pj workspaces pm
      strategy cons k =
     (let latestVersion = (case packageInfo of None \<Rightarrow> None | Some d \<Rightarrow> map_of (dist_tags d) ''latest'');
          devVersion = (case devDependencies pj of None \<Rightarrow> None | Some d \<Rightarrow> map_of d packageName);
          currentVersion =
            or_else (case dependencies pj of None \<Rightarrow> None | Some d \<Rightarrow> map_of d packageName) devVersion;
          isDirectDep = (currentVersion \<noteq> None);
          isDev = (devVersion \<noteq> None);
          st1 = (case latestVersion of
                   None \<Rightarrow> ([], k)
                 | Some l \<Rightarrow>
                     if truthy l \<and> currentVersion \<noteq> Some l
                     then (let isBreaking = isMajorUpgrade currentVersion l
                           in if \<not> isBreaking \<or> allowMajorUpgrade cons = Some True
                                 \<or> strategy = ''aggressive''
                              then push_solution rnd
                                     (upgrade_latest_solution packageName currentVersion l isBreaking
                                        isDirectDep isDev pm) ([], k)
                              else ([], k))
                     else ([], k));
          st2 = (case targetVersion of
                   None \<Rightarrow> st1
                 | Some t \<Rightarrow>
                     if truthy t \<and> Some t \<noteq> latestVersion
                     then push_solution rnd
                            (upgrade_target_solution packageName currentVersion t
                               (isMajorUpgrade currentVersion t) isDirectDep isDev pm) st1
                     else st1);
          st3 = (case latestVersion of
                   None \<Rightarrow> st2
                 | Some l \<Rightarrow>
                     if truthy l \<and> \<not> isDirectDep
                     then push_solution rnd (override_solution packageName targetVersion l pm) st2
                     else st2);
          st4 = (if length workspaces > 0
                 then (let affectedWorkspaces = findWorkspacesUsingPackage workspaces packageName
                       in if length affectedWorkspaces > 1
                          then push_solution rnd
                                 (workspace_unify_solution join_path packageName targetVersion
                                    latestVersion affectedWorkspaces) st3
                          else st3)
                 else st3)
      in st4)"

text \<open>
  \<open>generateComparison\<close>. \<open>Array.prototype.sort\<close> is stable, and so is \<^const>\<open>sort_key\<close>;
  the comparator \<open>b.recommendation - a.recommendation\<close> orders by descending score. An empty
  identifier is falsy, so \<open>recommended\<close> is \<open>null\<close> for it.
\<close>

definition generateComparison :: "solution list \<Rightarrow> comparison" where
  "generateComparison solutions =
     (let matrix = map (\<lambda>s. \<lparr> solutionId = solution_id s, m_title = title s,
                                m_risk = riskToNumber (level (risk s)),
                                m_effort = effortToNumber (estimatedEffort s),
                                m_recommendation = score (recommendation s) \<rparr>) solutions;
          sorted = sort_key (\<lambda>m. - int (m_recommendation m)) matrix;
          recommended = (case sorted of
                           [] \<Rightarrow> None
                         | m # _ \<Rightarrow> if truthy (solutionId m) then Some (solutionId m) else None)
      in \<lparr> matrix = matrix,
           recommended = recommended,
           reason = (case sorted of
                       [] \<Rightarrow> ([CHR 0xE6, CHR 0x97, CHR 0xA0, CHR 0xE5, CHR 0x8F, CHR 0xAF, CHR 0xE7, CHR 0x94,
          CHR 0xA8, CHR 0xE6, CHR 0x96, CHR 0xB9, CHR 0xE6, CHR 0xA1, CHR 0x88])
                     | m # _ \<Rightarrow>
                         if truthy (solutionId m)
                         then ([CHR 0xE6, CHR 0x96, CHR 0xB9, CHR 0xE6, CHR 0xA1, CHR 0x88] @ '' '' @ [CHR 0x22]
          @ m_title m @ [CHR 0x22] @ '' '' @ [CHR 0xE7, CHR 0xBB, CHR 0xBC, CHR 0xE5, CHR
          0x90, CHR 0x88, CHR 0xE8, CHR 0xAF, CHR 0x84, CHR 0xE5, CHR 0x88, CHR 0x86, CHR
          0xE6, CHR 0x9C, CHR 0x80, CHR 0xE9, CHR 0xAB, CHR 0x98] @ '' ('' @ show_nat
          (m_recommendation m) @ ''/100)'')
                         else ([CHR 0xE6, CHR 0x97, CHR 0xA0, CHR 0xE5, CHR 0x8F, CHR 0xAF, CHR 0xE7, CHR 0x94,
          CHR 0xA8, CHR 0xE6, CHR 0x96, CHR 0xB9, CHR 0xE6, CHR 0xA1, CHR 0x88])) \<rparr>)"

section \<open>A sample project\<close>

text \<open>
  A project managed by npm with three workspace members, two stacked overrides of one
  package, an engine range in caret syntax and a package manager that reports two peer
  dependency problems and prints two peer dependency warnings. The theorems below are
  instantiated on it.
\<close>

definition sample_rnd :: "nat \<Rightarrow> string" where
  "sample_rnd k = ''0.id'' @ show_nat k"

definition other_rnd :: "nat \<Rightarrow> string" where
  "other_rnd k = ''0.x'' @ show_nat (k + 7)"

definition sample_package_json :: package_json where
  "sample_package_json =
     \<lparr> pj_name = ''app'', pj_version = ''1.0.0'',
       dependencies = Some [(''react'', ''^18.2.0'')],
       devDependencies = None,
       engines_node = Some ''^18.0.0'',
       overrides = Some [(''react'', OverrideObject [(''classnames'', OverrideString ''2.3.1'')]),
                         (''classnames'', OverrideString ''2.5.0'')],
       pnpm_overrides = None,
       resolutions = None \<rparr>"

definition member_json :: "string \<Rightarrow> (string \<times> string) list \<Rightarrow> (string \<times> string) list \<Rightarrow> package_json" where
  "member_json n deps devDeps =
     \<lparr> pj_name = n, pj_version = ''0.1.0'', dependencies = Some deps, devDependencies = Some devDeps,
       engines_node = None, overrides = None, pnpm_overrides = None, resolutions = None \<rparr>"

definition member :: "string \<Rightarrow> (string \<times> string) list \<Rightarrow> (string \<times> string) list \<Rightarrow> workspace_info" where
  "member n deps devDeps =
     \<lparr> ws_name = n, ws_path = ''/app/packages/'' @ n, relativePath = ''packages/'' @ n,
       ws_version = ''0.1.0'', packageJson = member_json n deps devDeps \<rparr>"

definition sample_workspaces :: "workspace_info list" where
  "sample_workspaces =
     [member ''A'' [(''lodash'', ''^4.0.0''), (''react'', ''^18.2.0'')] [],
      member ''B'' [(''lodash'', ''>=4.0.0 <5.0.0-0'')] [(''react'', ''^18.2.0'')],
      member ''C'' [(''lodash'', ''^3.0.0'')] [(''lodash'', ''^4.0.0'')]]"

definition sample_tree :: "(string \<times> npm_dep) list" where
  "sample_tree =
     [(''react'', NpmDep (Some ''18.2.0'') (Some [(''loose-envify'', NpmDep (Some ''1.4.0'') None)])),
      (''foo'', NpmDep (Some ''1.0.0'')
         (Some [(''lodash'', NpmDep (Some ''3.10.1'') None),
                (''loose-envify'', NpmDep (Some ''1.4.0'') None)])),
      (''bar'', NpmDep (Some ''2.0.0'')
         (Some [(''lodash'', NpmDep (Some ''4.17.21'') None),
                (''baz'', NpmDep None (Some [(''lodash'', NpmDep (Some ''2.4.2'') None)]))])),
      (''lodash'', NpmDep (Some ''4.17.21'') None),
      (''qux'', NpmDep (Some ''1.1.0'') (Some [(''ms'', NpmDep (Some ''2.0.0'') None)])),
      (''ms'', NpmDep (Some ''2.1.3'') None)]"

definition sample_exec :: "string \<Rightarrow> string \<Rightarrow> exec_result" where
  "sample_exec cmd cwd =
     (if cmd = ''npm ls --json 2>&1''
      then \<lparr> stdout = ''problems'',
             stderr = ''npm WARN peer dep missing'' @ [CHR 0x0A] @ ''ok'' @ [CHR 0x0A]
                      @ ''npm warn old Peer Dep'',
             exitCode = 1 \<rparr>
      else \<lparr> stdout = ''tree'', stderr = [], exitCode = 0 \<rparr>)"

text \<open>The two outputs stand for the JSON documents that parse to the values below.\<close>

definition sample_parse :: "string \<Rightarrow> npm_ls option" where
  "sample_parse s =
     (if s = ''problems''
      then Some \<lparr> problems = Some [''peer dep missing: react@^17.0.0, required by foo@1.0.0'',
                                    ''extraneous: ms@2.0.0'',
                                    ''peer dep missing: react@^16.0.0, required by bar@2.0.0''],
                  ls_dependencies = None \<rparr>
      else if s = ''tree''
      then Some \<lparr> problems = None, ls_dependencies = Some sample_tree \<rparr>
      else None)"

definition sample_env :: collaborators where
  "sample_env =
     \<lparr> path_join = (\<lambda>a b. a @ ''/'' @ b),
       readJsonFile = (\<lambda>p. if p = ''/app/package.json'' then Some sample_package_json else None),
       detectPackageManager = (\<lambda>p. ''npm''),
       getWorkspacePackages = (\<lambda>p pm. sample_workspaces),
       execCommand = sample_exec,
       JSON_parse = sample_parse,
       process_version = ''v16.20.0'',
       semver_lib_satisfies = semver_satisfies,
       now = ''2024-01-01T00:00:00.000Z'' \<rparr>"

definition sample_input :: "string \<Rightarrow> detect_conflicts_input" where
  "sample_input sev =
     \<lparr> projectPath = ''/app'',
       checkTypes = [peer_dependency, multiple_versions, workspace_mismatch, override_risk,
                     engine_mismatch],
       severity_filter = sev \<rparr>"

section \<open>Notions used to state the properties\<close>

text \<open>A version string satisfies a parsed range as the version \<open>sv\<close>.\<close>

definition satisfying :: "semver_range \<Rightarrow> string \<Rightarrow> semver \<Rightarrow> bool" where
  "satisfying R v sv = (parse_version v = Some sv \<and> range_test R sv)"

text \<open>The invariant of the loop of \<open>maxSatisfying\<close> over the versions \<open>S\<close> seen so far.\<close>

definition max_inv :: "semver_range \<Rightarrow> string set \<Rightarrow> (string \<times> semver) option \<Rightarrow> bool" where
  "max_inv R S mx =
     (case mx of
        None \<Rightarrow> (\<forall>v \<in> S. \<forall>sv. \<not> satisfying R v sv)
      | Some m \<Rightarrow> fst m \<in> S \<and> satisfying R (fst m) (snd m)
                  \<and> (\<forall>v \<in> S. \<forall>sv. satisfying R v sv \<longrightarrow> semver_key sv \<le> semver_key (snd m)))"

text \<open>A record without its generated identifier, and the functions of a record that do
  not read the identifier.\<close>

definition erase_id :: "conflict_issue \<Rightarrow> conflict_issue" where
  "erase_id i = i\<lparr>id' := []\<rparr>"

definition ignores_id :: "(conflict_issue \<Rightarrow> 'a) \<Rightarrow> bool" where
  "ignores_id g = (\<forall>i s. g (i\<lparr>id' := s\<rparr>) = g i)"

text \<open>A record constructor that uses its argument for the identifier only.\<close>

definition sets_id :: "(string \<Rightarrow> conflict_issue) \<Rightarrow> bool" where
  "sets_id mk = (\<forall>s. mk s = (mk [])\<lparr>id' := s\<rparr>)"

text \<open>
  The resolved versions of the installed tree: every (name, version) pair of the tree of
  \<open>npm ls\<close> with a non-empty version, in the order of the traversal, and the distinct
  versions listed under one name.
\<close>

function tree_versions :: "(string \<times> npm_dep) list option \<Rightarrow> (string \<times> string) list"
  and entries_versions :: "(string \<times> npm_dep) list \<Rightarrow> (string \<times> string) list"
  and dep_versions :: "string \<Rightarrow> npm_dep \<Rightarrow> (string \<times> string) list" where
  "tree_versions None = []"
| "tree_versions (Some entries) = entries_versions entries"
| "entries_versions [] = []"
| "entries_versions ((name, dep) # rest) = dep_versions name dep @ entries_versions rest"
| "dep_versions name (NpmDep ver deps) =
     (case ver of None \<Rightarrow> [] | Some v \<Rightarrow> if truthy v then [(name, v)] else []) @ tree_versions deps"
  by pat_completeness auto
termination
  by (relation "measure (\<lambda>x. case x of
      Inl d \<Rightarrow> size_option (size_list (size_prod (\<lambda>_. 0) size)) d
    | Inr (Inl es) \<Rightarrow> size_list (size_prod (\<lambda>_. 0) size) es
    | Inr (Inr (n, d)) \<Rightarrow> size d)") auto

definition resolved_versions :: "(string \<times> npm_dep) list option \<Rightarrow> string \<Rightarrow> string list" where
  "resolved_versions deps name = remdups (map snd (filter (\<lambda>p. fst p = name) (tree_versions deps)))"

text \<open>One step of the collection: the version joins the set stored under the name.\<close>

definition add_version :: "string \<times> string \<Rightarrow> version_map \<Rightarrow> version_map" where
  "add_version p versionMap =
     obj_set versionMap (fst p)
       (set_add (case map_of versionMap (fst p) of None \<Rightarrow> [] | Some versions \<Rightarrow> versions) (snd p))"

text \<open>
  The manifest of a workspace member. The keys of an object are distinct; should a list of
  entries repeat a key, the later entry counts. The requirement strings the manifest of a
  member declares for a package are its entries under \<open>dependencies\<close> and under
  \<open>devDependencies\<close>; the distinct strings observed across the members are listed in the
  order of their first occurrence.
\<close>

definition own_property :: "(string \<times> string) list option \<Rightarrow> string \<Rightarrow> string option" where
  "own_property obj k = (case obj of None \<Rightarrow> None | Some entries \<Rightarrow> map_of (rev entries) k)"

definition manifest_strings :: "workspace_info \<Rightarrow> string \<Rightarrow> string list" where
  "manifest_strings ws p =
     (case own_property (dependencies (packageJson ws)) p of None \<Rightarrow> [] | Some r \<Rightarrow> [r])
     @ (case own_property (devDependencies (packageJson ws)) p of None \<Rightarrow> [] | Some r \<Rightarrow> [r])"

fun distinct_in_order :: "'a list \<Rightarrow> 'a list" where
  "distinct_in_order [] = []"
| "distinct_in_order (x # xs) = x # filter (\<lambda>y. y \<noteq> x) (distinct_in_order xs)"

definition observed_strings :: "workspace_info list \<Rightarrow> string \<Rightarrow> string list" where
  "observed_strings wss p = distinct_in_order (concat (map (\<lambda>ws. manifest_strings ws p) wss))"

text \<open>
  The requirement that counts for a member: its entry under \<open>devDependencies\<close> when there is
  one, otherwise its entry under \<open>dependencies\<close>. The distinct strings that count across the
  members, in the order of their first occurrence, and the members, in order, for which a
  given string counts.
\<close>

definition effective_requirement :: "workspace_info \<Rightarrow> string \<Rightarrow> string option" where
  "effective_requirement ws p =
     (case own_property (devDependencies (packageJson ws)) p of
        Some r \<Rightarrow> Some r
      | None \<Rightarrow> own_property (dependencies (packageJson ws)) p)"

definition effective_requirements :: "workspace_info list \<Rightarrow> string \<Rightarrow> string list" where
  "effective_requirements wss p =
     distinct_in_order
       (concat (map (\<lambda>ws. case effective_requirement ws p of None \<Rightarrow> [] | Some r \<Rightarrow> [r]) wss))"

definition members_requiring :: "workspace_info list \<Rightarrow> string \<Rightarrow> string \<Rightarrow> string list" where
  "members_requiring wss p r = map ws_name (filter (\<lambda>ws. effective_requirement ws p = Some r) wss)"

text \<open>The declarations the loops of \<open>detectWorkspaceMismatch\<close> visit, as (member, package,
  requirement) triples in the order of the visit.\<close>

definition workspace_declarations :: "workspace_info list \<Rightarrow> (string \<times> string \<times> string) list" where
  "workspace_declarations wss =
     concat (map (\<lambda>ws. map (\<lambda>e. (ws_name ws, fst e, snd e)) (allDeps (packageJson ws))) wss)"

text \<open>Two members of a workspace: one requires \<open>lodash\<close> as a dependency, the other
  declares one string under \<open>dependencies\<close> and another under \<open>devDependencies\<close>.\<close>

definition overwritten_members :: "workspace_info list" where
  "overwritten_members =
     [member ''A'' [(''lodash'', ''^4.0.0'')] [],
      member ''C'' [(''lodash'', ''^3.0.0'')] [(''lodash'', ''^4.0.0'')]]"

definition add_declaration :: "string \<times> string \<times> string \<Rightarrow> dep_versions \<Rightarrow> dep_versions" where
  "add_declaration d depVersions = collect_workspace_dep (fst d) (snd d) depVersions"

text \<open>The versions stored under a name, and the invariant of the version map: the names
  are distinct, and every stored set is non-empty and without repetition.\<close>

definition lookup_versions :: "version_map \<Rightarrow> string \<Rightarrow> string list" where
  "lookup_versions vm n = (case map_of vm n of None \<Rightarrow> [] | Some vs \<Rightarrow> vs)"

definition version_map_ok :: "version_map \<Rightarrow> bool" where
  "version_map_ok vm = (distinct (map fst vm) \<and> (\<forall>e \<in> set vm. distinct (snd e) \<and> snd e \<noteq> []))"

text \<open>The map stored for a package, the workspace names stored for a package and a
  requirement string, and the invariant that the keys of both levels are distinct.\<close>

definition pkg_map :: "dep_versions \<Rightarrow> string \<Rightarrow> (string \<times> string list) list" where
  "pkg_map dv n = (case map_of dv n of None \<Rightarrow> [] | Some m \<Rightarrow> m)"

definition requirement_names :: "dep_versions \<Rightarrow> string \<Rightarrow> string \<Rightarrow> string list" where
  "requirement_names dv n v = (case map_of (pkg_map dv n) v of None \<Rightarrow> [] | Some l \<Rightarrow> l)"

definition dep_versions_ok :: "dep_versions \<Rightarrow> bool" where
  "dep_versions_ok dv = (distinct (map fst dv) \<and> (\<forall>e \<in> set dv. distinct (map fst (snd e))))"




text \<open>
  A run of the solution generator: the registry knows \<open>lodash\<close> with the latest version
  \<open>4.17.21\<close>, no constraint is given, and \<open>Math.random()\<close> returns \<open>0\<close> at its first call,
  which \<open>toString(36)\<close> prints as \<open>"0"\<close>, and a fraction afterwards.
\<close>

definition zero_first_rnd :: "nat \<Rightarrow> string" where
  "zero_first_rnd k = (if k = 0 then ''0'' else ''0.abcdefghij'')"

definition lodash_document :: registry_package_document where
  "lodash_document = \<lparr> dist_tags = [(''latest'', ''4.17.21'')] \<rparr>"

definition no_constraints :: constraints where
  "no_constraints = \<lparr> allowMajorUpgrade = None, preferredVersions = None \<rparr>"

section \<open>Properties\<close>

subsection \<open>Objects and maps\<close>

lemma map_of_obj_set: "map_of (obj_set m k v) = (map_of m)(k \<mapsto> v)"
  by (induction m) (auto simp: fun_eq_iff)

subsection \<open>The severity filter and the summary\<close>

lemma map_of_count_by_type_step:
  "map_of (count_by_type x bt) t =
     (if type' x = t then Some ((case map_of bt t of None \<Rightarrow> 0 | Some c \<Rightarrow> c) + 1) else map_of bt t)"
  by (simp add: count_by_type_def map_of_obj_set)

lemma map_of_count_by_type:
  "map_of (fold count_by_type xs bt) t =
     (case map_of bt t of
        None \<Rightarrow> (if filter (\<lambda>i. type' i = t) xs = [] then None
                  else Some (length (filter (\<lambda>i. type' i = t) xs)))
      | Some c \<Rightarrow> Some (c + length (filter (\<lambda>i. type' i = t) xs)))"
proof (induction xs arbitrary: bt)
  case Nil
  then show ?case by (simp split: option.splits)
next
  case (Cons x xs)
  have "map_of (fold count_by_type (x # xs) bt) t = map_of (fold count_by_type xs (count_by_type x bt)) t"
    by simp
  also have "\<dots> = (case map_of (count_by_type x bt) t of
        None \<Rightarrow> (if filter (\<lambda>i. type' i = t) xs = [] then None
                  else Some (length (filter (\<lambda>i. type' i = t) xs)))
      | Some c \<Rightarrow> Some (c + length (filter (\<lambda>i. type' i = t) xs)))"
    by (rule Cons.IH)
  finally show ?case
    by (simp add: map_of_count_by_type_step split: option.splits)
qed

text \<open>
  C10. When the manifest can be read, \<open>detectConflicts\<close> returns; the issues it returns are
  the detected ones with severity \<open>error\<close> under the filter \<open>"error"\<close>, those whose severity
  is not \<open>info\<close> under \<open>"warning"\<close> (errors included), and all of them otherwise, in
  particular under \<open>"all"\<close>. \<open>hasIssues\<close>, \<open>total\<close>, \<open>errors\<close>, \<open>warnings\<close>, \<open>infos\<close> and
  every entry of \<open>byType\<close> count the returned, filtered list; a type without a returned issue
  has no entry in \<open>byType\<close>.
\<close>

theorem detectConflicts_filter_and_summary:
  assumes "readJsonFile env (path_join env (projectPath input) ''package.json'') = Some pj"
  shows "\<exists>out. detectConflicts rnd env input = Inr out
     \<and> issues out =
         (if severity_filter input = ''error''
          then filter (\<lambda>i. severity i = error) (collect_issues rnd env input pj)
          else if severity_filter input = ''warning''
          then filter (\<lambda>i. severity i \<noteq> info) (collect_issues rnd env input pj)
          else collect_issues rnd env input pj)
     \<and> hasIssues out = (issues out \<noteq> [])
     \<and> total (summary out) = length (issues out)
     \<and> errors (summary out) = length (filter (\<lambda>i. severity i = error) (issues out))
     \<and> warnings (summary out) = length (filter (\<lambda>i. severity i = warning) (issues out))
     \<and> infos (summary out) = length (filter (\<lambda>i. severity i = info) (issues out))
     \<and> (\<forall>t. map_of (byType (summary out)) t =
              (if filter (\<lambda>i. type' i = t) (issues out) = [] then None
               else Some (length (filter (\<lambda>i. type' i = t) (issues out)))))"
  using assms
  by (simp add: detectConflicts_def summarize_def filter_severity_def map_of_count_by_type)

theorem detectConflicts_filter_and_summary_witness:
  "readJsonFile sample_env
       (path_join sample_env (projectPath (sample_input ''warning'')) ''package.json'')
     = Some sample_package_json
   \<and> (\<exists>out. detectConflicts sample_rnd sample_env (sample_input ''warning'') = Inr out
        \<and> issues out = filter (\<lambda>i. severity i \<noteq> info)
              (collect_issues sample_rnd sample_env (sample_input ''warning'') sample_package_json)
        \<and> hasIssues out = (issues out \<noteq> [])
        \<and> total (summary out) = length (issues out)
        \<and> errors (summary out) = length (filter (\<lambda>i. severity i = error) (issues out)))"
proof -
  have h: "readJsonFile sample_env
       (path_join sample_env (projectPath (sample_input ''warning'')) ''package.json'')
     = Some sample_package_json"
    by (simp add: sample_env_def sample_input_def)
  from detectConflicts_filter_and_summary [OF h, of sample_rnd]
  obtain out where
    "detectConflicts sample_rnd sample_env (sample_input ''warning'') = Inr out"
    "issues out =
         (if severity_filter (sample_input ''warning'') = ''error''
          then filter (\<lambda>i. severity i = error)
                 (collect_issues sample_rnd sample_env (sample_input ''warning'') sample_package_json)
          else if severity_filter (sample_input ''warning'') = ''warning''
          then filter (\<lambda>i. severity i \<noteq> info)
                 (collect_issues sample_rnd sample_env (sample_input ''warning'') sample_package_json)
          else collect_issues sample_rnd sample_env (sample_input ''warning'') sample_package_json)"
    "hasIssues out = (issues out \<noteq> [])"
    "total (summary out) = length (issues out)"
    "errors (summary out) = length (filter (\<lambda>i. severity i = error) (issues out))"
    by blast
  moreover have "severity_filter (sample_input ''warning'') = ''warning''"
    by (simp add: sample_input_def)
  ultimately show ?thesis using h by auto
qed

subsection \<open>The version range oracle\<close>

lemmas semver_defs = semver_maxSatisfying_def semver_satisfies_def parse_range_def
  parse_comparator_set_def parse_comparator_def split_operator_def parse_partial_def
  xrange_identifier_def numeric_identifier_def is_digit_def is_letter_def is_identifier_char_def
  digits_value_def strip_v_def caret_range_def tilde_range_def x_range_def any_version_def
  no_version_def mk_semver_def max_step_def parse_version_def parse_prerelease_def
  prerelease_identifier_def valid_build_def range_test_def test_set_def comparator_test_def
  semver_compare_def semver_key_def identifier_key_def MAX_SAFE_INTEGER_def

lemma parse_range_malformed: "parse_range ''not a range'' = None"
  by (simp add: semver_defs Let_def)

lemma parse_range_caret:
  "parse_range ''^1.2.0'' = Some [[(GTE, mk_semver 1 2 0 []), (LT, mk_semver 2 0 0 [Numeric 0])]]"
  by (simp add: semver_defs Let_def)

text \<open>
  C7. \<open>satisfiesVersion\<close> returns a boolean for every version and every range, whatever the
  library does: it is true exactly when the library call returns true, so an exception of
  the library becomes false. With the modelled library a malformed range gives false.
\<close>

theorem satisfiesVersion_fails_closed:
  "satisfiesVersion sat version rng = (sat version rng = Inr True)
   \<and> (sat version rng = Inl e \<longrightarrow> satisfiesVersion sat version rng = False)
   \<and> (parse_range rng = None \<longrightarrow> satisfiesVersion semver_satisfies version rng = False)"
  by (auto simp: satisfiesVersion_def semver_satisfies_def split: sum.splits)

theorem satisfiesVersion_fails_closed_witness:
  "(\<lambda>v r. Inl TypeError) ''1.0.0'' ''not a range'' = (Inl TypeError :: js_error + bool)
   \<and> parse_range ''not a range'' = None
   \<and> satisfiesVersion (\<lambda>v r. Inl TypeError) ''1.0.0'' ''not a range'' = False
   \<and> satisfiesVersion semver_satisfies ''1.0.0'' ''not a range'' = False"
  using satisfiesVersion_fails_closed [of "\<lambda>v r. Inl TypeError" "''1.0.0''" "''not a range''" TypeError]
    satisfiesVersion_fails_closed [of semver_satisfies "''1.0.0''" "''not a range''" TypeError]
    parse_range_malformed
  by simp

text \<open>
  C3. With the modelled library \<open>getMaxSatisfying\<close> returns a value for every list of
  versions and every range string, and that value is none when the range is malformed;
  \<open>semver.satisfies\<close> returns a boolean for every version and range as well. (The function
  of the source adds no \<open>try\<close> of its own: it returns what the library returns.)
\<close>

theorem getMaxSatisfying_never_throws:
  "(\<exists>res. getMaxSatisfying semver_maxSatisfying versions rng = Inr res)
   \<and> (parse_range rng = None \<longrightarrow> getMaxSatisfying semver_maxSatisfying versions rng = Inr None)
   \<and> (\<exists>b. semver_satisfies version rng = Inr b)"
  by (auto simp add: getMaxSatisfying_def semver_maxSatisfying_def semver_satisfies_def
        split: option.splits)

theorem getMaxSatisfying_never_throws_witness:
  "parse_range ''not a range'' = None
   \<and> getMaxSatisfying semver_maxSatisfying [''1.0.0'', ''2.0.0''] ''not a range'' = Inr None"
  using getMaxSatisfying_never_throws [of "[''1.0.0'', ''2.0.0'']" "''not a range''" "''1.0.0''"]
    parse_range_malformed
  by simp

lemma semver_compare_le: "semver_compare a b \<le> 0 \<longleftrightarrow> semver_key a \<le> semver_key b"
  by (auto simp: semver_compare_def)

lemma semver_compare_less: "semver_compare a b = - 1 \<longleftrightarrow> semver_key a < semver_key b"
  by (auto simp: semver_compare_def)

lemma satisfying_satisfiesVersion:
  "parse_range rng = Some R \<Longrightarrow>
     satisfiesVersion semver_satisfies v rng = (\<exists>sv. satisfying R v sv)"
  by (simp add: satisfiesVersion_def semver_satisfies_def satisfying_def split: option.splits)

lemma max_inv_step: "max_inv R S mx \<Longrightarrow> max_inv R (insert x S) (max_step R x mx)"
  by (cases mx; cases "parse_version x")
     (auto simp: max_inv_def max_step_def satisfying_def semver_compare_less)

lemma max_inv_fold: "max_inv R S mx \<Longrightarrow> max_inv R (S \<union> set xs) (fold (max_step R) xs mx)"
proof (induction xs arbitrary: S mx)
  case Nil
  then show ?case by simp
next
  case (Cons x xs)
  from Cons.prems have "max_inv R (insert x S) (max_step R x mx)"
    by (rule max_inv_step)
  from Cons.IH [OF this] show ?case by simp
qed

lemma maxSatisfying_first_example:
  "semver_maxSatisfying [''1.2.0'', ''1.3.0'', ''2.0.0''] ''^1.2.0'' = Inr (Some ''1.3.0'')"
  by (simp add: semver_defs Let_def)

lemma maxSatisfying_second_example: "semver_maxSatisfying [''1.0.0''] ''^2.0.0'' = Inr None"
  by (simp add: semver_defs Let_def)

text \<open>
  C8. With the modelled library and a well-formed range, \<open>getMaxSatisfying\<close> returns none
  exactly when no version of the list satisfies the range; otherwise it returns a version of
  the list that satisfies the range and that no satisfying version of the list exceeds in
  precedence. Precedence compares major, minor and patch as numbers first, and puts a version
  with a pre-release below the same version without. The two examples of the spec evaluate as
  stated.
\<close>

theorem getMaxSatisfying_greatest:
  assumes "parse_range rng = Some R"
  shows "\<exists>res. getMaxSatisfying semver_maxSatisfying versions rng = Inr res
     \<and> (res = None \<longleftrightarrow> (\<forall>v \<in> set versions. \<not> satisfiesVersion semver_satisfies v rng))
     \<and> (\<forall>m. res = Some m \<longrightarrow>
           m \<in> set versions \<and> satisfiesVersion semver_satisfies m rng
           \<and> (\<forall>v \<in> set versions. satisfiesVersion semver_satisfies v rng \<longrightarrow>
                (\<exists>sv msv. parse_version v = Some sv \<and> parse_version m = Some msv
                    \<and> semver_compare sv msv \<le> 0)))
     \<and> ((sv_major a, sv_minor a, sv_patch a) < (sv_major b, sv_minor b, sv_patch b)
           \<longrightarrow> semver_compare a b = - 1)
     \<and> (sv_prerelease a \<noteq> [] \<longrightarrow> semver_compare a (a\<lparr>sv_prerelease := []\<rparr>) = - 1)
     \<and> getMaxSatisfying semver_maxSatisfying [''1.2.0'', ''1.3.0'', ''2.0.0''] ''^1.2.0''
           = Inr (Some ''1.3.0'')
     \<and> getMaxSatisfying semver_maxSatisfying [''1.0.0''] ''^2.0.0'' = Inr None"
proof -
  have "max_inv R {} None" by (simp add: max_inv_def)
  from max_inv_fold [OF this, of versions]
  have inv: "max_inv R (set versions) (fold (max_step R) versions None)" by simp
  have order1: "(sv_major a, sv_minor a, sv_patch a) < (sv_major b, sv_minor b, sv_patch b)
           \<longrightarrow> semver_compare a b = - 1"
    by (auto simp add: semver_compare_def semver_key_def)
  have order2: "sv_prerelease a \<noteq> [] \<longrightarrow> semver_compare a (a\<lparr>sv_prerelease := []\<rparr>) = - 1"
    by (simp add: semver_compare_def semver_key_def)
  have examples:
    "getMaxSatisfying semver_maxSatisfying [''1.2.0'', ''1.3.0'', ''2.0.0''] ''^1.2.0''
           = Inr (Some ''1.3.0'')"
    "getMaxSatisfying semver_maxSatisfying [''1.0.0''] ''^2.0.0'' = Inr None"
    by (simp_all only: getMaxSatisfying_def maxSatisfying_first_example
          maxSatisfying_second_example)
  have main: "\<exists>res. getMaxSatisfying semver_maxSatisfying versions rng = Inr res
     \<and> (res = None \<longleftrightarrow> (\<forall>v \<in> set versions. \<not> satisfiesVersion semver_satisfies v rng))
     \<and> (\<forall>m. res = Some m \<longrightarrow>
           m \<in> set versions \<and> satisfiesVersion semver_satisfies m rng
           \<and> (\<forall>v \<in> set versions. satisfiesVersion semver_satisfies v rng \<longrightarrow>
                (\<exists>sv msv. parse_version v = Some sv \<and> parse_version m = Some msv
                    \<and> semver_compare sv msv \<le> 0)))"
  proof (cases "fold (max_step R) versions None")
    case None
    with inv assms show ?thesis
      by (simp add: getMaxSatisfying_def semver_maxSatisfying_def max_inv_def
            satisfying_satisfiesVersion)
  next
    case (Some m)
    with inv assms show ?thesis
      by (auto simp add: getMaxSatisfying_def semver_maxSatisfying_def max_inv_def
            satisfying_satisfiesVersion semver_compare_le satisfying_def)
  qed
  from main order1 order2 examples show ?thesis by blast
qed

theorem getMaxSatisfying_greatest_witness:
  "parse_range ''^1.2.0'' = Some [[(GTE, mk_semver 1 2 0 []), (LT, mk_semver 2 0 0 [Numeric 0])]]
   \<and> getMaxSatisfying semver_maxSatisfying [''1.2.0'', ''1.3.0'', ''2.0.0''] ''^1.2.0''
        = Inr (Some ''1.3.0'')
   \<and> ''1.3.0'' \<in> set [''1.2.0'', ''1.3.0'', ''2.0.0'']
   \<and> satisfiesVersion semver_satisfies ''1.3.0'' ''^1.2.0''"
proof -
  from getMaxSatisfying_greatest [OF parse_range_caret, of "[''1.2.0'', ''1.3.0'', ''2.0.0'']"]
  obtain res where res: "getMaxSatisfying semver_maxSatisfying [''1.2.0'', ''1.3.0'', ''2.0.0''] ''^1.2.0'' = Inr res"
    and greatest: "\<forall>m. res = Some m \<longrightarrow>
           m \<in> set [''1.2.0'', ''1.3.0'', ''2.0.0''] \<and> satisfiesVersion semver_satisfies m ''^1.2.0''"
    by blast
  have "res = Some ''1.3.0''"
    using res by (simp add: getMaxSatisfying_def maxSatisfying_first_example)
  with res greatest parse_range_caret show ?thesis by blast
qed

subsection \<open>The engine check\<close>














subsection \<open>Independence from the generated identifiers\<close>

lemma ignores_sets: "ignores_id g \<Longrightarrow> sets_id mk \<Longrightarrow> g (mk s) = g (mk [])"
  unfolding ignores_id_def sets_id_def by metis

lemma push_issue_fst: "fst (push_issue rnd mk st) = fst st @ [mk (take 8 (drop 2 (rnd (snd st))))]"
  by (cases st) (simp add: push_issue_def generateId_def)

lemma push_issue_snd: "snd (push_issue rnd mk st) = Suc (snd st)"
  by (cases st) (simp add: push_issue_def generateId_def)

lemma fold_push:
  assumes step: "\<And>x st. f x st = (if c x then push_issue rnd (mk x) st else st)"
    and proj: "\<And>x s. g (mk x s) = h x"
  shows "map g (fst (fold f xs st)) = map g (fst st) @ map h (filter c xs)"
proof (induction xs arbitrary: st)
  case Nil
  show ?case by simp
next
  case (Cons x xs)
  have "map g (fst (fold f (x # xs) st)) = map g (fst (fold f xs (f x st)))" by simp
  also have "\<dots> = map g (fst (f x st)) @ map h (filter c xs)" by (rule Cons.IH)
  also have "map g (fst (f x st)) = map g (fst st) @ map h (filter c [x])"
    by (simp add: step push_issue_fst proj)
  finally show ?case by simp
qed

lemma fold_push_snd:
  assumes step: "\<And>x st. f x st = (if c x then push_issue rnd (mk x) st else st)"
  shows "snd (fold f xs st) = snd st + length (filter c xs)"
proof (induction xs arbitrary: st)
  case Nil
  show ?case by simp
next
  case (Cons x xs)
  have "snd (fold f (x # xs) st) = snd (fold f xs (f x st))" by simp
  also have "\<dots> = snd (f x st) + length (filter c xs)" by (rule Cons.IH)
  also have "snd (f x st) = snd st + length (filter c [x])"
    by (simp add: step push_issue_snd)
  finally show ?case by simp
qed

text \<open>Every loop body of a detector either pushes one record or leaves the state.\<close>

lemma peer_problem_step:
  "peer_problem rnd x st =
     (if peerMatch x \<noteq> None then push_issue rnd (peer_problem_issue x (the (peerMatch x))) st else st)"
  by (simp add: peer_problem_def split: option.splits)

lemma peer_warning_step:
  "peer_warning rnd x st = (if True then push_issue rnd (peer_warning_issue x) st else st)"
  by (simp add: peer_warning_def)

lemma multiple_versions_step:
  "multiple_versions_entry rnd x st =
     (if length (snd x) > 1 then push_issue rnd (multiple_versions_issue (fst x) (snd x)) st else st)"
  by (cases x) (simp add: multiple_versions_entry_def)

lemma workspace_mismatch_step:
  "workspace_mismatch_entry rnd x st =
     (if length (snd x) > 1 then push_issue rnd (workspace_mismatch_issue (fst x) (snd x)) st else st)"
  by (cases x) (simp add: workspace_mismatch_entry_def)

lemma override_step:
  "override_entry rnd x st =
     (if True then push_issue rnd (override_risk_issue (fst x) (override_pkgName (fst x)) (snd x)) st else st)"
  by (cases x) (simp add: override_entry_def)

lemma sets_id_issues:
  "sets_id (peer_problem_issue x m)" "sets_id (peer_warning_issue w)"
  "sets_id (multiple_versions_issue n vs)" "sets_id (workspace_mismatch_issue p vw)"
  "sets_id (override_risk_issue a b c)" "sets_id (engine_mismatch_issue cur req)"
  by (simp_all add: sets_id_def peer_problem_issue_def peer_warning_issue_def
        multiple_versions_issue_def workspace_mismatch_issue_def override_risk_issue_def
        engine_mismatch_issue_def split: prod.splits)

lemma peer_ignores:
  assumes g: "ignores_id g"
  shows "map g (fst (detectPeerDependencyIssues rnd1 exec parse pm k1))
       = map g (fst (detectPeerDependencyIssues rnd2 exec parse pm k2))"
proof -
  have problems: "map g (fst (fold (peer_problem rnd) ps st))
      = map g (fst st) @ map (\<lambda>x. g (peer_problem_issue x (the (peerMatch x)) [])) (filter (\<lambda>x. peerMatch x \<noteq> None) ps)"
    for rnd ps st
    by (rule fold_push [OF peer_problem_step]) (rule ignores_sets [OF g sets_id_issues(1)])
  have warnings: "map g (fst (fold (peer_warning rnd) ws st))
      = map g (fst st) @ map (\<lambda>x. g (peer_warning_issue x [])) (filter (\<lambda>x. True) ws)"
    for rnd ws st
    by (rule fold_push [OF peer_warning_step]) (rule ignores_sets [OF g sets_id_issues(2)])
  show ?thesis
    by (simp add: detectPeerDependencyIssues_def Let_def problems warnings split: option.splits)
qed

lemma multi_ignores:
  assumes g: "ignores_id g"
  shows "map g (fst (detectMultipleVersions rnd1 exec parse pm k1))
       = map g (fst (detectMultipleVersions rnd2 exec parse pm k2))"
proof -
  have entries: "map g (fst (fold (multiple_versions_entry rnd) vm st))
      = map g (fst st) @ map (\<lambda>x. g (multiple_versions_issue (fst x) (snd x) []))
                            (filter (\<lambda>x. length (snd x) > 1) vm)"
    for rnd vm st
    by (rule fold_push [OF multiple_versions_step]) (rule ignores_sets [OF g sets_id_issues(3)])
  have shape: "map g (fst (case opt of None \<Rightarrow> ([], k)
                            | Some c \<Rightarrow> fold (multiple_versions_entry rnd) (vm c) ([], k)))
      = (case opt of None \<Rightarrow> []
         | Some c \<Rightarrow> map (\<lambda>x. g (multiple_versions_issue (fst x) (snd x) []))
                       (filter (\<lambda>x. length (snd x) > 1) (vm c)))"
    for rnd k opt and vm :: "string \<Rightarrow> version_map"
    by (cases opt) (simp_all add: entries)
  show ?thesis
    unfolding detectMultipleVersions_def Let_def by (simp only: shape)
qed

lemma workspace_ignores:
  assumes g: "ignores_id g"
  shows "map g (fst (detectWorkspaceMismatch rnd1 wss pj k1))
       = map g (fst (detectWorkspaceMismatch rnd2 wss pj k2))"
proof -
  have entries: "map g (fst (fold (workspace_mismatch_entry rnd) dv st))
      = map g (fst st) @ map (\<lambda>x. g (workspace_mismatch_issue (fst x) (snd x) []))
                            (filter (\<lambda>x. length (snd x) > 1) dv)"
    for rnd dv st
    by (rule fold_push [OF workspace_mismatch_step]) (rule ignores_sets [OF g sets_id_issues(4)])
  show ?thesis
    by (simp add: detectWorkspaceMismatch_def entries)
qed

lemma override_ignores:
  assumes g: "ignores_id g"
  shows "map g (fst (detectOverrideRisks rnd1 ov pj k1))
       = map g (fst (detectOverrideRisks rnd2 ov pj k2))"
proof -
  have entries: "map g (fst (fold (override_entry rnd) xs st))
      = map g (fst st) @ map (\<lambda>x. g (override_risk_issue (fst x) (override_pkgName (fst x)) (snd x) []))
                            (filter (\<lambda>x. True) xs)"
    for rnd xs st
    by (rule fold_push [OF override_step]) (rule ignores_sets [OF g sets_id_issues(5)])
  show ?thesis
    by (simp add: detectOverrideRisks_def entries)
qed

lemma engine_ignores:
  assumes g: "ignores_id g"
  shows "map g (fst (detectEngineMismatch rnd1 sat pv pj k1))
       = map g (fst (detectEngineMismatch rnd2 sat pv pj k2))"
proof -
  have "g (engine_mismatch_issue cur req s) = g (engine_mismatch_issue cur req s')" for cur req s s'
    using ignores_sets [OF g sets_id_issues(6)] by metis
  then show ?thesis
    by (auto simp add: detectEngineMismatch_def Let_def push_issue_fst split: option.splits)
qed

lemma run_check_fst:
  "fst (run_check b det st) = fst st @ (if b then fst (det (snd st)) else [])"
  by (cases st) (simp add: run_check_def split: prod.splits)

lemma run_check_ignores:
  assumes "\<And>k1 k2. map g (fst (det1 k1)) = map g (fst (det2 k2))"
    and "map g (fst st1) = map g (fst st2)"
  shows "map g (fst (run_check b det1 st1)) = map g (fst (run_check b det2 st2))"
  using assms by (simp add: run_check_fst)

lemma collect_issues_ignores:
  assumes g: "ignores_id g"
  shows "map g (collect_issues rnd1 env input pj) = map g (collect_issues rnd2 env input pj)"
  unfolding collect_issues_def Let_def
  by (intro run_check_ignores peer_ignores multi_ignores workspace_ignores override_ignores
        engine_ignores g) simp

lemma ignores_id_erase: "ignores_id erase_id"
  by (simp add: ignores_id_def erase_id_def)

lemma filter_severity_erase:
  "map erase_id (filter_severity sev xs) = filter_severity sev (map erase_id xs)"
  by (simp add: filter_severity_def filter_map comp_def erase_id_def)

lemma count_by_type_erase: "fold count_by_type (map erase_id xs) bt = fold count_by_type xs bt"
  by (induction xs arbitrary: bt) (simp_all add: count_by_type_def erase_id_def)

lemma summarize_erase:
  "summary (summarize t (map erase_id xs)) = summary (summarize t' xs)"
  "hasIssues (summarize t (map erase_id xs)) = hasIssues (summarize t' xs)"
  by (simp_all add: summarize_def filter_map comp_def count_by_type_erase)
     (simp_all add: erase_id_def)

text \<open>
  C9. Two runs of \<open>detectConflicts\<close> on the same input with the same collaborator outputs,
  but with different random identifiers and a different clock, either both fail with the
  same error or both return, and then their issue lists are equal record by record once the
  \<open>id\<close> fields are erased, and their summaries and \<open>hasIssues\<close> flags are equal.
\<close>

theorem detectConflicts_idempotent:
  "(case (detectConflicts rnd1 env input, detectConflicts rnd2 (env\<lparr>now := t\<rparr>) input) of
      (Inr out1, Inr out2) \<Rightarrow>
         map erase_id (issues out1) = map erase_id (issues out2)
         \<and> summary out1 = summary out2 \<and> hasIssues out1 = hasIssues out2
    | (Inl e1, Inl e2) \<Rightarrow> e1 = e2
    | _ \<Rightarrow> False)"
proof (cases "readJsonFile env (path_join env (projectPath input) ''package.json'')")
  case None
  then show ?thesis by (simp add: detectConflicts_def)
next
  case (Some pj)
  have same_env: "collect_issues rnd2 (env\<lparr>now := t\<rparr>) input pj = collect_issues rnd2 env input pj"
    by (simp add: collect_issues_def)
  have eq: "map erase_id (filter_severity (severity_filter input) (collect_issues rnd1 env input pj))
      = map erase_id (filter_severity (severity_filter input) (collect_issues rnd2 env input pj))"
    by (simp add: filter_severity_erase collect_issues_ignores [OF ignores_id_erase, of rnd1 env input pj rnd2])
  have s1: "summary (summarize (now env) (filter_severity (severity_filter input) (collect_issues rnd1 env input pj)))
     = summary (summarize t (filter_severity (severity_filter input) (collect_issues rnd2 env input pj)))"
    using summarize_erase(1) [symmetric] eq by metis
  have s2: "hasIssues (summarize (now env) (filter_severity (severity_filter input) (collect_issues rnd1 env input pj)))
     = hasIssues (summarize t (filter_severity (severity_filter input) (collect_issues rnd2 env input pj)))"
    using summarize_erase(2) [symmetric] eq by metis
  have i1: "issues (summarize a xs) = xs" for a xs by (simp add: summarize_def)
  show ?thesis
    using Some eq s1 s2 by (simp add: detectConflicts_def same_env i1)
qed

theorem detectConflicts_idempotent_witness:
  "(case (detectConflicts sample_rnd sample_env (sample_input ''all''),
          detectConflicts other_rnd (sample_env\<lparr>now := ''2024-06-01T00:00:00.000Z''\<rparr>) (sample_input ''all'')) of
      (Inr out1, Inr out2) \<Rightarrow>
         map erase_id (issues out1) = map erase_id (issues out2)
         \<and> summary out1 = summary out2 \<and> hasIssues out1 = hasIssues out2
    | (Inl e1, Inl e2) \<Rightarrow> e1 = e2
    | _ \<Rightarrow> False)"
  by (rule detectConflicts_idempotent)

subsection \<open>The check for multiple versions\<close>

lemma map_fst_obj_set:
  "map fst (obj_set m k v) = (if k \<in> set (map fst m) then map fst m else map fst m @ [k])"
  by (induction m k v rule: obj_set.induct) auto

lemma distinct_obj_set: "distinct (map fst m) \<Longrightarrow> distinct (map fst (obj_set m k v))"
  by (simp add: map_fst_obj_set)

lemma collect_as_fold:
  "collectNpmVersions deps vm = fold add_version (tree_versions deps) vm"
  "collectNpmEntries es vm = fold add_version (entries_versions es) vm"
  "collectNpmDep name dep vm = fold add_version (dep_versions name dep) vm"
  by (induction deps vm and es vm and name dep vm
        rule: collectNpmVersions_collectNpmEntries_collectNpmDep.induct)
     (simp_all add: add_version_def split: option.splits)

lemma set_add_props: "set (set_add s v) = insert v (set s)" "distinct s \<Longrightarrow> distinct (set_add s v)"
  "set_add s v \<noteq> []"
  by (auto simp: set_add_def)

lemma set_obj_set:
  "distinct (map fst m) \<Longrightarrow> set (obj_set m k v) = {e \<in> set m. fst e \<noteq> k} \<union> {(k, v)}"
  by (induction m k v rule: obj_set.induct) (auto simp: rev_image_eqI)

lemma add_version_ok:
  assumes "version_map_ok vm"
  shows "version_map_ok (add_version p vm)"
proof -
  from assms have d: "distinct (map fst vm)"
    and e: "\<And>e. e \<in> set vm \<Longrightarrow> distinct (snd e) \<and> snd e \<noteq> []"
    by (auto simp: version_map_ok_def)
  let ?old = "case map_of vm (fst p) of None \<Rightarrow> [] | Some versions \<Rightarrow> versions"
  have "distinct ?old"
    using e by (auto split: option.splits dest!: map_of_SomeD)
  then have new: "distinct (set_add ?old (snd p))" "set_add ?old (snd p) \<noteq> []"
    by (simp_all add: set_add_props)
  have "set (add_version p vm) = {e \<in> set vm. fst e \<noteq> fst p} \<union> {(fst p, set_add ?old (snd p))}"
    unfolding add_version_def by (rule set_obj_set [OF d])
  with new e have "\<forall>e \<in> set (add_version p vm). distinct (snd e) \<and> snd e \<noteq> []"
    by auto
  moreover have "distinct (map fst (add_version p vm))"
    unfolding add_version_def by (rule distinct_obj_set [OF d])
  ultimately show ?thesis by (simp add: version_map_ok_def)
qed

lemma add_version_lookup:
  "lookup_versions (add_version p vm) n =
     (if n = fst p then set_add (lookup_versions vm n) (snd p) else lookup_versions vm n)"
  by (simp add: lookup_versions_def add_version_def map_of_obj_set)

lemma add_version_dom:
  "map_of (add_version p vm) n = None \<longleftrightarrow> n \<noteq> fst p \<and> map_of vm n = None"
  by (simp add: add_version_def map_of_obj_set)

lemma fold_add_version_ok: "version_map_ok vm \<Longrightarrow> version_map_ok (fold add_version ps vm)"
  by (induction ps arbitrary: vm) (simp_all add: add_version_ok)

lemma fold_add_version_set:
  "set (lookup_versions (fold add_version ps vm) n)
     = set (lookup_versions vm n) \<union> snd ` {p \<in> set ps. fst p = n}"
  by (induction ps arbitrary: vm) (auto simp: add_version_lookup set_add_props)

lemma version_map_ok_lookup:
  "version_map_ok vm \<Longrightarrow> distinct (lookup_versions vm n)"
  by (auto simp: version_map_ok_def lookup_versions_def split: option.splits dest!: map_of_SomeD)

lemma version_map_ok_nonempty:
  "version_map_ok vm \<Longrightarrow> map_of vm n = Some vs \<Longrightarrow> vs \<noteq> []"
  by (auto simp: version_map_ok_def dest!: map_of_SomeD)

lemma filter_key_distinct:
  "distinct (map fst m) \<Longrightarrow>
     filter (\<lambda>e. fst e = k) m = (case map_of m k of None \<Rightarrow> [] | Some v \<Rightarrow> [(k, v)])"
proof (induction m)
  case Nil
  then show ?case by simp
next
  case (Cons e m)
  obtain a b where e: "e = (a, b)" by (cases e)
  show ?case
  proof (cases "a = k")
    case True
    with Cons.prems e have "filter (\<lambda>e. fst e = k) m = []"
      by (auto simp: filter_empty_conv image_iff)
    with True e show ?thesis by simp
  next
    case False
    with Cons e show ?thesis by simp
  qed
qed

lemma collected_length:
  "length (lookup_versions (collectNpmVersions deps []) n) = length (resolved_versions deps n)"
proof -
  have ok: "version_map_ok (fold add_version (tree_versions deps) [])"
    by (rule fold_add_version_ok) (simp add: version_map_ok_def)
  have empty: "lookup_versions [] n = []"
    by (simp add: lookup_versions_def)
  have "set (lookup_versions (fold add_version (tree_versions deps) []) n)
      = set (resolved_versions deps n)"
    by (auto simp: fold_add_version_set empty resolved_versions_def)
  moreover have "distinct (lookup_versions (fold add_version (tree_versions deps) []) n)"
    using ok by (rule version_map_ok_lookup)
  moreover have "distinct (resolved_versions deps n)"
    by (simp add: resolved_versions_def)
  ultimately show ?thesis
    by (metis collect_as_fold(1) distinct_card)
qed

lemma multiple_versions_records:
  assumes "distinct (map fst vm)"
  shows "map (\<lambda>i. (type' i, severity i))
           (filter (\<lambda>i. package i = name) (fst (fold (multiple_versions_entry rnd) vm ([], k))))
     = (let n = length (lookup_versions vm name)
        in if n > 2 then [(multiple_versions, warning)]
           else if n = 2 then [(multiple_versions, info)] else [])"
proof -
  let ?g = "\<lambda>i. (package i, type' i, severity i)"
  let ?h = "\<lambda>x :: string \<times> string list.
               (fst x, multiple_versions, if length (snd x) > 2 then warning else info)"
  have "map ?g (fst (fold (multiple_versions_entry rnd) vm ([], k)))
      = map ?g (fst ([] :: conflict_issue list, k)) @ map ?h (filter (\<lambda>x. length (snd x) > 1) vm)"
    by (rule fold_push [OF multiple_versions_step]) (simp add: multiple_versions_issue_def)
  then have all: "map ?g (fst (fold (multiple_versions_entry rnd) vm ([], k)))
      = map ?h (filter (\<lambda>x. length (snd x) > 1) vm)"
    by simp
  have "map (\<lambda>i. (type' i, severity i))
           (filter (\<lambda>i. package i = name) (fst (fold (multiple_versions_entry rnd) vm ([], k))))
      = map snd (filter (\<lambda>t. fst t = name) (map ?g (fst (fold (multiple_versions_entry rnd) vm ([], k)))))"
    by (simp add: filter_map comp_def)
  also have "\<dots> = map snd (map ?h (filter (\<lambda>x. fst x = name) (filter (\<lambda>x. length (snd x) > 1) vm)))"
    by (simp only: all) (simp add: filter_map comp_def)
  also have "filter (\<lambda>x. fst x = name) (filter (\<lambda>x. length (snd x) > 1) vm)
      = filter (\<lambda>x. length (snd x) > 1) (filter (\<lambda>x. fst x = name) vm)"
    by (simp add: conj_commute)
  finally show ?thesis
    using assms
    by (auto simp: filter_key_distinct lookup_versions_def Let_def split: option.splits)
qed

lemma sample_resolved_lodash:
  "resolved_versions (Some sample_tree) ''lodash'' = [''3.10.1'', ''2.4.2'', ''4.17.21'']"
  by (simp add: resolved_versions_def sample_tree_def truthy_def)

lemma sample_tree_parsed:
  "sample_parse (stdout (sample_exec cmd ''/app''))
     = (if cmd = ''npm ls --json 2>&1''
        then Some \<lparr> problems = Some [''peer dep missing: react@^17.0.0, required by foo@1.0.0'',
                                    ''extraneous: ms@2.0.0'',
                                    ''peer dep missing: react@^16.0.0, required by bar@2.0.0''],
                  ls_dependencies = None \<rparr>
        else Some \<lparr> problems = None, ls_dependencies = Some sample_tree \<rparr>)"
  by (simp add: sample_parse_def sample_exec_def)

text \<open>
  Where the listing is collected, the rule of C4 holds: when the package manager is npm and
  the output of \<open>npm ls --json --all\<close> is non-empty and parses, a package with \<open>n\<close> distinct
  resolved versions in that tree gets exactly one \<open>multiple_versions\<close> record if \<open>n > 1\<close>, of
  severity \<open>warning\<close> if \<open>n > 2\<close> and \<open>info\<close> if \<open>n = 2\<close>, and no record if \<open>n \<le> 1\<close>.
\<close>

lemma detectMultipleVersions_npm_records:
  assumes "pm = ''npm''" and "truthy (stdout (exec ''npm ls --json --all''))"
    and "parse (stdout (exec ''npm ls --json --all'')) = Some data"
  shows "map (\<lambda>i. (type' i, severity i))
         (filter (\<lambda>i. package i = name) (fst (detectMultipleVersions rnd exec parse pm k)))
       = (let n = length (resolved_versions (ls_dependencies data) name)
          in if n > 2 then [(multiple_versions, warning)]
             else if n = 2 then [(multiple_versions, info)] else [])"
proof -
  let ?vm = "collectNpmVersions (ls_dependencies data) []"
  have run: "detectMultipleVersions rnd exec parse pm k = fold (multiple_versions_entry rnd) ?vm ([], k)"
    using assms by (simp add: detectMultipleVersions_def)
  have "version_map_ok ?vm"
    unfolding collect_as_fold by (rule fold_add_version_ok) (simp add: version_map_ok_def)
  then have "distinct (map fst ?vm)" by (simp add: version_map_ok_def)
  from multiple_versions_records [OF this, of name rnd k]
  show ?thesis
    by (simp add: run collected_length)
qed

lemma sample_npm_lodash:
  "map (\<lambda>i. (type' i, severity i))
         (filter (\<lambda>i. package i = ''lodash'')
            (fst (detectMultipleVersions sample_rnd (\<lambda>c. sample_exec c ''/app'') sample_parse ''npm'' 4)))
       = [(multiple_versions, warning)]"
proof -
  have t: "truthy (stdout (sample_exec ''npm ls --json --all'' ''/app''))"
    by (simp add: truthy_def sample_exec_def)
  have p: "sample_parse (stdout (sample_exec ''npm ls --json --all'' ''/app''))
       = Some \<lparr> problems = None, ls_dependencies = Some sample_tree \<rparr>"
    by (simp add: sample_tree_parsed)
  from detectMultipleVersions_npm_records
         [where pm = "''npm''" and exec = "\<lambda>c. sample_exec c ''/app''" and parse = sample_parse
            and data = "\<lparr> problems = None, ls_dependencies = Some sample_tree \<rparr>"
            and name = "''lodash''" and rnd = sample_rnd and k = 4]
       t p
  show ?thesis by (simp add: sample_resolved_lodash)
qed

text \<open>
  C4 does not hold of the code for pnpm and yarn. \<open>detectMultipleVersions\<close> builds and runs
  their listing commands, but collects versions only when the package manager is npm. On the
  sample project managed by pnpm the command \<open>pnpm list --json --depth=Infinity\<close> is run and
  returns the tree in which \<open>lodash\<close> has three distinct resolved versions; the claim asks for
  one \<open>multiple_versions\<close> record of severity \<open>warning\<close> for \<open>lodash\<close>, as npm gets it, and
  the function returns no record at all.
\<close>

theorem detectMultipleVersions_pnpm_no_record:
  "sample_parse (stdout (sample_exec ''pnpm list --json --depth=Infinity'' ''/app''))
     = Some \<lparr> problems = None, ls_dependencies = Some sample_tree \<rparr>
   \<and> length (resolved_versions (Some sample_tree) ''lodash'') = 3
   \<and> fst (detectMultipleVersions sample_rnd (\<lambda>c. sample_exec c ''/app'') sample_parse ''pnpm'' 4) = []
   \<and> fst (detectMultipleVersions sample_rnd (\<lambda>c. sample_exec c ''/app'') sample_parse ''yarn'' 4) = []
   \<and> map (\<lambda>i. (type' i, severity i))
         (filter (\<lambda>i. package i = ''lodash'')
            (fst (detectMultipleVersions sample_rnd (\<lambda>c. sample_exec c ''/app'') sample_parse ''npm'' 4)))
       = [(multiple_versions, warning)]"
  by (simp add: sample_resolved_lodash sample_tree_parsed sample_npm_lodash)
     (simp add: detectMultipleVersions_def)

subsection \<open>The workspace check\<close>

lemma add_declaration_pair: "add_declaration (w, e) = collect_workspace_dep w e"
  by (simp add: fun_eq_iff add_declaration_def)

lemma collect_workspace_as_fold:
  "collect_workspace ws dv
     = fold add_declaration (map (\<lambda>e. (ws_name ws, fst e, snd e)) (allDeps (packageJson ws))) dv"
  by (simp add: collect_workspace_def fold_map comp_def add_declaration_pair)

lemma depVersions_as_fold:
  "fold collect_workspace wss dv = fold add_declaration (workspace_declarations wss) dv"
  by (induction wss arbitrary: dv)
     (simp_all add: workspace_declarations_def collect_workspace_as_fold)

lemma add_declaration_pkg_map:
  "pkg_map (add_declaration d dv) n =
     (if n = fst (snd d)
      then obj_set (pkg_map dv n) (snd (snd d)) (requirement_names dv n (snd (snd d)) @ [fst d])
      else pkg_map dv n)"
  by (cases d)
     (simp add: add_declaration_def collect_workspace_dep_def pkg_map_def requirement_names_def
        map_of_obj_set Let_def)

lemma add_declaration_ok:
  assumes "dep_versions_ok dv"
  shows "dep_versions_ok (add_declaration d dv)"
proof -
  obtain w n v where d: "d = (w, n, v)" by (cases d)
  from assms have dist: "distinct (map fst dv)"
    and inner: "\<And>e. e \<in> set dv \<Longrightarrow> distinct (map fst (snd e))"
    by (auto simp: dep_versions_ok_def)
  let ?pm = "case map_of dv n of None \<Rightarrow> [] | Some m \<Rightarrow> m"
  let ?l = "case map_of ?pm v of None \<Rightarrow> [] | Some l \<Rightarrow> l"
  have eq: "add_declaration d dv = obj_set dv n (obj_set ?pm v (?l @ [w]))"
    by (simp add: d add_declaration_def collect_workspace_dep_def Let_def)
  have "distinct (map fst ?pm)"
    using inner by (auto split: option.splits dest!: map_of_SomeD)
  then have new: "distinct (map fst (obj_set ?pm v (?l @ [w])))"
    by (rule distinct_obj_set)
  have "set (add_declaration d dv) = {e \<in> set dv. fst e \<noteq> n} \<union> {(n, obj_set ?pm v (?l @ [w]))}"
    unfolding eq by (rule set_obj_set [OF dist])
  with new inner have "\<forall>e \<in> set (add_declaration d dv). distinct (map fst (snd e))"
    by auto
  moreover have "distinct (map fst (add_declaration d dv))"
    unfolding eq by (rule distinct_obj_set [OF dist])
  ultimately show ?thesis by (simp add: dep_versions_ok_def)
qed

lemma add_declaration_names:
  "requirement_names (add_declaration d dv) n v =
     requirement_names dv n v @ (if n = fst (snd d) \<and> v = snd (snd d) then [fst d] else [])"
  by (simp add: requirement_names_def add_declaration_pkg_map map_of_obj_set)

lemma fold_add_declaration_ok:
  "dep_versions_ok dv \<Longrightarrow> dep_versions_ok (fold add_declaration ds dv)"
  by (induction ds arbitrary: dv) (simp_all add: add_declaration_ok)

lemma fold_add_declaration_names:
  "requirement_names (fold add_declaration ds dv) n v =
     requirement_names dv n v @ map fst (filter (\<lambda>d. fst (snd d) = n \<and> snd (snd d) = v) ds)"
  by (induction ds arbitrary: dv) (auto simp: add_declaration_names)

lemma distinct_obj_assign: "distinct (map fst t) \<Longrightarrow> distinct (map fst (obj_assign t s))"
  unfolding obj_assign_def
  by (induction s arbitrary: t) (auto simp: distinct_obj_set)

lemma distinct_allDeps: "distinct (map fst (allDeps pj))"
  by (simp add: allDeps_def distinct_obj_assign)

lemma workspace_records:
  "map (\<lambda>i. (package i, type' i, severity i, details i, affectedPaths i))
       (fst (fold (workspace_mismatch_entry rnd) dv ([], k)))
     = map (\<lambda>x. (fst x, workspace_mismatch, warning,
                   workspaceMismatch
                     (map (\<lambda>(version, wsNames). (join '', '' wsNames, version, [version])) (snd x)),
                   concat (map snd (snd x))))
         (filter (\<lambda>x. length (snd x) > 1) dv)"
proof -
  let ?g = "\<lambda>i. (package i, type' i, severity i, details i, affectedPaths i)"
  let ?h = "\<lambda>x :: string \<times> (string \<times> string list) list.
               (fst x, workspace_mismatch, warning,
                workspaceMismatch
                  (map (\<lambda>(version, wsNames). (join '', '' wsNames, version, [version])) (snd x)),
                concat (map snd (snd x)))"
  have "map ?g (fst (fold (workspace_mismatch_entry rnd) dv ([], k)))
      = map ?g (fst ([] :: conflict_issue list, k)) @ map ?h (filter (\<lambda>x. length (snd x) > 1) dv)"
    by (rule fold_push [OF workspace_mismatch_step]) (simp add: workspace_mismatch_issue_def)
  then show ?thesis by simp
qed

lemma pkg_map_distinct:
  "dep_versions_ok dv \<Longrightarrow> distinct (map fst (pkg_map dv p))"
  by (auto simp: dep_versions_ok_def pkg_map_def split: option.splits dest!: map_of_SomeD)

lemma filter_pkg_map:
  "dep_versions_ok dv \<Longrightarrow>
     filter (\<lambda>x. fst x = p) dv = (if map_of dv p = None then [] else [(p, pkg_map dv p)])"
  by (auto simp: dep_versions_ok_def filter_key_distinct pkg_map_def split: option.splits)

lemma map_of_obj_assign:
  "map_of (obj_assign t s) k = (case map_of (rev s) k of Some v \<Rightarrow> Some v | None \<Rightarrow> map_of t k)"
proof (induction s arbitrary: t)
  case Nil
  show ?case by (simp add: obj_assign_def)
next
  case (Cons e s)
  obtain a b where e: "e = (a, b)" by (cases e)
  have "map_of (obj_assign t (e # s)) k = map_of (obj_assign (obj_set t a b) s) k"
    by (simp add: obj_assign_def e)
  also have "\<dots> = (case map_of (rev s) k of Some v \<Rightarrow> Some v | None \<Rightarrow> map_of (obj_set t a b) k)"
    by (rule Cons.IH)
  finally show ?case
    by (simp add: e map_of_obj_set map_add_def split: option.splits)
qed

lemma map_of_allDeps: "map_of (allDeps (packageJson ws)) p = effective_requirement ws p"
  by (cases "dependencies (packageJson ws)"; cases "devDependencies (packageJson ws)")
     (simp_all add: allDeps_def map_of_obj_assign effective_requirement_def own_property_def
        split: option.splits)

lemma member_declarations:
  "filter (\<lambda>e. fst e = p) (allDeps (packageJson ws))
     = (case effective_requirement ws p of None \<Rightarrow> [] | Some r \<Rightarrow> [(p, r)])"
  by (simp add: filter_key_distinct [OF distinct_allDeps] map_of_allDeps)

lemma declared_values:
  "map (\<lambda>d. snd (snd d)) (filter (\<lambda>d. fst (snd d) = p) (workspace_declarations wss))
     = concat (map (\<lambda>ws. case effective_requirement ws p of None \<Rightarrow> [] | Some r \<Rightarrow> [r]) wss)"
proof (induction wss)
  case Nil
  show ?case by (simp add: workspace_declarations_def)
next
  case (Cons ws wss)
  have "map (\<lambda>d. snd (snd d))
          (filter (\<lambda>d. fst (snd d) = p)
             (map (\<lambda>e. (ws_name ws, fst e, snd e)) (allDeps (packageJson ws))))
      = map snd (filter (\<lambda>e. fst e = p) (allDeps (packageJson ws)))"
    by (simp add: filter_map comp_def)
  also have "\<dots> = (case effective_requirement ws p of None \<Rightarrow> [] | Some r \<Rightarrow> [r])"
    by (simp add: member_declarations split: option.splits)
  finally show ?case
    using Cons.IH by (simp add: workspace_declarations_def)
qed

lemma declaring_members:
  "map fst (filter (\<lambda>d. fst (snd d) = p \<and> snd (snd d) = r) (workspace_declarations wss))
     = members_requiring wss p r"
proof (induction wss)
  case Nil
  show ?case by (simp add: workspace_declarations_def members_requiring_def)
next
  case (Cons ws wss)
  have "filter (\<lambda>e. fst e = p \<and> snd e = r) (allDeps (packageJson ws))
      = filter (\<lambda>e. snd e = r) (filter (\<lambda>e. fst e = p) (allDeps (packageJson ws)))"
    by (simp add: conj_commute)
  also have "\<dots> = (if effective_requirement ws p = Some r then [(p, r)] else [])"
    by (simp add: member_declarations split: option.splits)
  finally have one: "map fst
          (filter (\<lambda>d. fst (snd d) = p \<and> snd (snd d) = r)
             (map (\<lambda>e. (ws_name ws, fst e, snd e)) (allDeps (packageJson ws))))
      = (if effective_requirement ws p = Some r then [ws_name ws] else [])"
    by (simp add: filter_map comp_def)
  have "workspace_declarations (ws # wss)
      = map (\<lambda>e. (ws_name ws, fst e, snd e)) (allDeps (packageJson ws)) @ workspace_declarations wss"
    by (simp add: workspace_declarations_def)
  then show ?case
    using Cons.IH one by (simp add: members_requiring_def)
qed

lemma fold_set_add:
  "fold (\<lambda>x acc. set_add acc x) xs acc
     = acc @ filter (\<lambda>y. y \<notin> set acc) (distinct_in_order xs)"
proof (induction xs arbitrary: acc)
  case Nil
  show ?case by simp
next
  case (Cons x xs)
  show ?case
  proof (cases "x \<in> set acc")
    case True
    then have eq: "filter (\<lambda>y. y \<notin> set acc) (filter (\<lambda>y. y \<noteq> x) (distinct_in_order xs))
        = filter (\<lambda>y. y \<notin> set acc) (distinct_in_order xs)"
      by (auto intro: filter_cong)
    have "fold (\<lambda>x acc. set_add acc x) (x # xs) acc = fold (\<lambda>x acc. set_add acc x) xs acc"
      using True by (simp add: set_add_def)
    also have "\<dots> = acc @ filter (\<lambda>y. y \<notin> set acc) (distinct_in_order xs)"
      by (rule Cons.IH)
    also have "\<dots> = acc @ filter (\<lambda>y. y \<notin> set acc) (distinct_in_order (x # xs))"
      using True by (simp only: distinct_in_order.simps filter.simps eq) simp
    finally show ?thesis .
  next
    case False
    have eq: "filter (\<lambda>y. y \<notin> set (acc @ [x])) (distinct_in_order xs)
        = filter (\<lambda>y. y \<notin> set acc) (filter (\<lambda>y. y \<noteq> x) (distinct_in_order xs))"
      by (auto intro: filter_cong)
    have "fold (\<lambda>x acc. set_add acc x) (x # xs) acc = fold (\<lambda>x acc. set_add acc x) xs (acc @ [x])"
      using False by (simp add: set_add_def)
    also have "\<dots> = (acc @ [x]) @ filter (\<lambda>y. y \<notin> set (acc @ [x])) (distinct_in_order xs)"
      by (rule Cons.IH)
    also have "\<dots> = acc @ filter (\<lambda>y. y \<notin> set acc) (distinct_in_order (x # xs))"
      using False by (simp only: distinct_in_order.simps filter.simps eq) simp
    finally show ?thesis .
  qed
qed

lemma add_declaration_key_list:
  "map fst (pkg_map (add_declaration d dv) n) =
     (if n = fst (snd d) then set_add (map fst (pkg_map dv n)) (snd (snd d))
      else map fst (pkg_map dv n))"
  by (simp add: add_declaration_pkg_map map_fst_obj_set set_add_def del: set_map)

lemma fold_add_declaration_key_list:
  "map fst (pkg_map (fold add_declaration ds dv) n) =
     fold (\<lambda>x acc. set_add acc x)
       (map (\<lambda>d. snd (snd d)) (filter (\<lambda>d. fst (snd d) = n) ds)) (map fst (pkg_map dv n))"
proof (induction ds arbitrary: dv)
  case Nil
  show ?case by simp
next
  case (Cons d ds)
  have "map fst (pkg_map (fold add_declaration (d # ds) dv) n)
      = map fst (pkg_map (fold add_declaration ds (add_declaration d dv)) n)"
    by simp
  also have "\<dots> = fold (\<lambda>x acc. set_add acc x)
       (map (\<lambda>d. snd (snd d)) (filter (\<lambda>d. fst (snd d) = n) ds))
       (map fst (pkg_map (add_declaration d dv) n))"
    by (rule Cons.IH)
  finally show ?case
    by (simp add: add_declaration_key_list)
qed

lemma assoc_by_keys:
  "distinct (map fst m) \<Longrightarrow>
     map (\<lambda>k. (k, case map_of m k of None \<Rightarrow> [] | Some l \<Rightarrow> l)) (map fst m) = m"
proof (induction m)
  case Nil
  show ?case by simp
next
  case (Cons e m)
  obtain a b where e: "e = (a, b)" by (cases e)
  from Cons.prems e have "a \<notin> fst ` set m" and d: "distinct (map fst m)" by auto
  then have "map (\<lambda>k. (k, case map_of (e # m) k of None \<Rightarrow> [] | Some l \<Rightarrow> l)) (map fst m)
      = map (\<lambda>k. (k, case map_of m k of None \<Rightarrow> [] | Some l \<Rightarrow> l)) (map fst m)"
    by (auto simp: e)
  with Cons.IH [OF d] e show ?case by simp
qed

lemma sublist_join: "m \<in> set names \<Longrightarrow> sublist m (join sep names)"
proof (induction sep names rule: join.induct)
  case (1 sep)
  then show ?case by simp
next
  case (2 sep x)
  then show ?case by simp
next
  case (3 sep x y ys)
  show ?case
  proof (cases "m = x")
    case True
    then show ?thesis by (simp add: sublist_append_leftI)
  next
    case False
    with 3 have "sublist m (join sep (y # ys))" by simp
    then show ?thesis
      by (metis join.simps(3) sublist_append_leftI sublist_order.order.trans sublist_append_rightI)
  qed
qed

lemma final_dep_versions:
  fixes wss
  defines "dv \<equiv> fold collect_workspace wss []"
  shows "dep_versions_ok dv"
    and "pkg_map dv p = map (\<lambda>r. (r, members_requiring wss p r)) (effective_requirements wss p)"
proof -
  have dv: "dv = fold add_declaration (workspace_declarations wss) []"
    by (simp add: dv_def depVersions_as_fold)
  show ok: "dep_versions_ok dv"
    unfolding dv by (rule fold_add_declaration_ok) (simp add: dep_versions_ok_def)
  have empty: "pkg_map [] p = []" "\<And>v. requirement_names [] p v = []"
    by (simp_all add: pkg_map_def requirement_names_def)
  have keys: "map fst (pkg_map dv p) = effective_requirements wss p"
    unfolding dv fold_add_declaration_key_list declared_values
    by (simp add: empty fold_set_add effective_requirements_def)
  have names: "requirement_names dv p r = members_requiring wss p r" for r
    unfolding dv fold_add_declaration_names declaring_members by (simp add: empty)
  have "pkg_map dv p
      = map (\<lambda>k. (k, case map_of (pkg_map dv p) k of None \<Rightarrow> [] | Some l \<Rightarrow> l)) (map fst (pkg_map dv p))"
    by (rule assoc_by_keys [symmetric]) (rule pkg_map_distinct [OF ok])
  also have "\<dots> = map (\<lambda>k. (k, requirement_names dv p k)) (map fst (pkg_map dv p))"
    by (simp add: requirement_names_def)
  finally show "pkg_map dv p = map (\<lambda>r. (r, members_requiring wss p r)) (effective_requirements wss p)"
    by (simp only: keys names)
qed

lemma distinct_in_order_set: "set (distinct_in_order xs) = set xs"
  by (induction xs) auto

lemma distinct_in_order_distinct: "distinct (distinct_in_order xs)"
  by (induction xs) (auto simp: distinct_in_order_set)

lemma effective_requirements_set:
  "set (effective_requirements wss p) = {r. \<exists>ws \<in> set wss. effective_requirement ws p = Some r}"
  by (auto simp: effective_requirements_def distinct_in_order_set split: option.splits)

lemma members_requiring_set:
  "set (members_requiring wss p r) = ws_name ` {ws \<in> set wss. effective_requirement ws p = Some r}"
  by (auto simp: members_requiring_def)

text \<open>
  C6 does not hold of the code when a member declares a package in both of its dependency
  fields: the two strings are merged into one before the grouping, the \<open>devDependencies\<close>
  string overwriting the \<open>dependencies\<close> one. Member \<open>A\<close> declares \<open>lodash\<close> as \<open>^4.0.0\<close>;
  member \<open>C\<close> declares it as \<open>^3.0.0\<close> in \<open>dependencies\<close> and as \<open>^4.0.0\<close> in
  \<open>devDependencies\<close>. Two distinct requirement strings are observed across the members, and
  no record is emitted.
\<close>

theorem detectWorkspaceMismatch_overwritten_counterexample:
  "observed_strings overwritten_members ''lodash'' = [''^4.0.0'', ''^3.0.0'']
   \<and> 1 < length (observed_strings overwritten_members ''lodash'')
   \<and> fst (detectWorkspaceMismatch sample_rnd overwritten_members sample_package_json 0) = []"
  by (simp add: observed_strings_def manifest_strings_def own_property_def overwritten_members_def
        member_def member_json_def detectWorkspaceMismatch_def collect_workspace_def
        collect_workspace_dep_def allDeps_def obj_assign_def workspace_mismatch_entry_def Let_def)

text \<open>
  C6, amended. The requirement string of a member for a package is the entry of its
  \<open>devDependencies\<close> if there is one, and the entry of its \<open>dependencies\<close> otherwise. For
  every package, \<open>detectWorkspaceMismatch\<close> emits exactly one record (of type
  \<open>workspace_mismatch\<close>, severity \<open>warning\<close>) when the members have more than one distinct
  requirement string for it, and none otherwise; the strings are compared as text. The record
  has one entry for each distinct string, in the order of first occurrence: the entry joins
  the names of the members that have this string with \<open>", "\<close>, in the order of the members,
  and gives the string as declared and as resolved; the affected paths are these names, string
  after string. Every member that declares the package is so listed: its string is one of the
  distinct strings, and its name is part of the joined names of the entry of that string.
\<close>

theorem detectWorkspaceMismatch_records:
  "map (\<lambda>i. (type' i, severity i, details i, affectedPaths i))
       (filter (\<lambda>i. package i = p) (fst (detectWorkspaceMismatch rnd wss pj k)))
     = (if length (effective_requirements wss p) > 1
        then [(workspace_mismatch, warning,
               workspaceMismatch
                 (map (\<lambda>r. (join '', '' (members_requiring wss p r), r, [r]))
                    (effective_requirements wss p)),
               concat (map (members_requiring wss p) (effective_requirements wss p)))]
        else [])
   \<and> distinct (effective_requirements wss p)
   \<and> (\<forall>ws \<in> set wss. \<forall>r. effective_requirement ws p = Some r \<longrightarrow>
          r \<in> set (effective_requirements wss p)
          \<and> ws_name ws \<in> set (members_requiring wss p r)
          \<and> sublist (ws_name ws) (join '', '' (members_requiring wss p r)))
   \<and> (\<forall>r \<in> set (effective_requirements wss p). \<forall>m \<in> set (members_requiring wss p r).
          \<exists>ws \<in> set wss. ws_name ws = m \<and> effective_requirement ws p = Some r)"
proof -
  define dv where "dv = fold collect_workspace wss []"
  let ?issues = "fst (fold (workspace_mismatch_entry rnd) dv ([], k))"
  let ?g = "\<lambda>i. (package i, type' i, severity i, details i, affectedPaths i)"
  let ?h = "\<lambda>x :: string \<times> (string \<times> string list) list.
               (fst x, workspace_mismatch, warning,
                workspaceMismatch
                  (map (\<lambda>(version, wsNames). (join '', '' wsNames, version, [version])) (snd x)),
                concat (map snd (snd x)))"
  have run: "fst (detectWorkspaceMismatch rnd wss pj k) = ?issues"
    by (simp add: detectWorkspaceMismatch_def dv_def)
  have ok: "dep_versions_ok dv"
    and groups: "pkg_map dv p
       = map (\<lambda>r. (r, members_requiring wss p r)) (effective_requirements wss p)"
    unfolding dv_def by (rule final_dep_versions)+
  have all: "map ?g ?issues = map ?h (filter (\<lambda>x. length (snd x) > 1) dv)"
    by (rule workspace_records)
  have for_p: "map ?g (filter (\<lambda>i. package i = p) ?issues)
      = (if length (pkg_map dv p) > 1 then [?h (p, pkg_map dv p)] else [])"
  proof -
    have "map ?g (filter (\<lambda>i. package i = p) ?issues) = filter (\<lambda>t. fst t = p) (map ?g ?issues)"
      by (simp add: filter_map comp_def)
    also have "\<dots> = map ?h (filter (\<lambda>x. fst x = p) (filter (\<lambda>x. length (snd x) > 1) dv))"
      by (simp only: all) (simp add: filter_map comp_def)
    also have "filter (\<lambda>x. fst x = p) (filter (\<lambda>x. length (snd x) > 1) dv)
        = filter (\<lambda>x. length (snd x) > 1) (filter (\<lambda>x. fst x = p) dv)"
      by (simp add: conj_commute)
    also have "\<dots> = (if length (pkg_map dv p) > 1 then [(p, pkg_map dv p)] else [])"
      by (auto simp: filter_pkg_map [OF ok] pkg_map_def)
    finally show ?thesis by simp
  qed
  have first: "map (\<lambda>i. (type' i, severity i, details i, affectedPaths i))
       (filter (\<lambda>i. package i = p) ?issues)
     = (if length (effective_requirements wss p) > 1
        then [(workspace_mismatch, warning,
               workspaceMismatch
                 (map (\<lambda>r. (join '', '' (members_requiring wss p r), r, [r]))
                    (effective_requirements wss p)),
               concat (map (members_requiring wss p) (effective_requirements wss p)))]
        else [])"
  proof -
    have "map (\<lambda>i. (type' i, severity i, details i, affectedPaths i))
            (filter (\<lambda>i. package i = p) ?issues)
        = map snd (map ?g (filter (\<lambda>i. package i = p) ?issues))"
      by (simp add: comp_def)
    also have "\<dots> = (if length (pkg_map dv p) > 1 then [snd (?h (p, pkg_map dv p))] else [])"
      by (simp only: for_p) simp
    finally show ?thesis by (simp add: groups comp_def)
  qed
  have second: "r \<in> set (effective_requirements wss p)
          \<and> ws_name ws \<in> set (members_requiring wss p r)
          \<and> sublist (ws_name ws) (join '', '' (members_requiring wss p r))"
    if "ws \<in> set wss" and "effective_requirement ws p = Some r" for ws r
  proof -
    from that have "r \<in> set (effective_requirements wss p)"
      by (auto simp: effective_requirements_set)
    moreover from that have m: "ws_name ws \<in> set (members_requiring wss p r)"
      by (auto simp: members_requiring_set)
    moreover from m have "sublist (ws_name ws) (join '', '' (members_requiring wss p r))"
      by (rule sublist_join)
    ultimately show ?thesis by blast
  qed
  have third: "\<exists>ws \<in> set wss. ws_name ws = m \<and> effective_requirement ws p = Some r"
    if "m \<in> set (members_requiring wss p r)" for m r
    using that by (auto simp: members_requiring_set)
  have fourth: "distinct (effective_requirements wss p)"
    by (simp add: effective_requirements_def distinct_in_order_distinct)
  from first second third fourth show ?thesis unfolding run by blast
qed

lemma sample_effective_lodash:
  "effective_requirements sample_workspaces ''lodash'' = [''^4.0.0'', ''>=4.0.0 <5.0.0-0'']"
  "members_requiring sample_workspaces ''lodash'' ''^4.0.0'' = [''A'', ''C'']"
  "members_requiring sample_workspaces ''lodash'' ''>=4.0.0 <5.0.0-0'' = [''B'']"
  "effective_requirement (member ''C'' [(''lodash'', ''^3.0.0'')] [(''lodash'', ''^4.0.0'')]) ''lodash''
     = Some ''^4.0.0''"
  by (simp_all add: effective_requirements_def effective_requirement_def members_requiring_def
        own_property_def sample_workspaces_def member_def member_json_def)

lemma equivalent_ranges: "parse_range ''^4.0.0'' = parse_range ''>=4.0.0 <5.0.0-0''"
  by (simp add: semver_defs Let_def)

theorem detectWorkspaceMismatch_records_witness:
  "effective_requirements sample_workspaces ''lodash'' = [''^4.0.0'', ''>=4.0.0 <5.0.0-0'']
   \<and> parse_range ''^4.0.0'' = parse_range ''>=4.0.0 <5.0.0-0''
   \<and> map (\<lambda>i. (type' i, severity i, details i, affectedPaths i))
         (filter (\<lambda>i. package i = ''lodash'')
            (fst (detectWorkspaceMismatch sample_rnd sample_workspaces sample_package_json 6)))
       = [(workspace_mismatch, warning,
           workspaceMismatch [(''A, C'', ''^4.0.0'', [''^4.0.0'']),
                              (''B'', ''>=4.0.0 <5.0.0-0'', [''>=4.0.0 <5.0.0-0''])],
           [''A'', ''C'', ''B''])]
   \<and> member ''C'' [(''lodash'', ''^3.0.0'')] [(''lodash'', ''^4.0.0'')] \<in> set sample_workspaces
   \<and> effective_requirement (member ''C'' [(''lodash'', ''^3.0.0'')] [(''lodash'', ''^4.0.0'')]) ''lodash''
        = Some ''^4.0.0''
   \<and> ''^4.0.0'' \<in> set (effective_requirements sample_workspaces ''lodash'')
   \<and> ''C'' \<in> set (members_requiring sample_workspaces ''lodash'' ''^4.0.0'')
   \<and> sublist ''C'' ''A, C''"
proof -
  let ?C = "member ''C'' [(''lodash'', ''^3.0.0'')] [(''lodash'', ''^4.0.0'')]"
  note inst = detectWorkspaceMismatch_records
               [of "''lodash''" sample_rnd sample_workspaces sample_package_json 6]
  have C: "?C \<in> set sample_workspaces" "ws_name ?C = ''C''"
    by (simp_all add: sample_workspaces_def member_def)
  from inst have one: "map (\<lambda>i. (type' i, severity i, details i, affectedPaths i))
         (filter (\<lambda>i. package i = ''lodash'')
            (fst (detectWorkspaceMismatch sample_rnd sample_workspaces sample_package_json 6)))
       = [(workspace_mismatch, warning,
           workspaceMismatch [(''A, C'', ''^4.0.0'', [''^4.0.0'']),
                              (''B'', ''>=4.0.0 <5.0.0-0'', [''>=4.0.0 <5.0.0-0''])],
           [''A'', ''C'', ''B''])]"
    by (simp add: sample_effective_lodash)
  from inst have sec: "\<forall>ws \<in> set sample_workspaces. \<forall>r.
          effective_requirement ws ''lodash'' = Some r \<longrightarrow>
          r \<in> set (effective_requirements sample_workspaces ''lodash'')
          \<and> ws_name ws \<in> set (members_requiring sample_workspaces ''lodash'' r)
          \<and> sublist (ws_name ws) (join '', '' (members_requiring sample_workspaces ''lodash'' r))"
    by (elim conjE)
  have listed: "''^4.0.0'' \<in> set (effective_requirements sample_workspaces ''lodash'')
          \<and> ''C'' \<in> set (members_requiring sample_workspaces ''lodash'' ''^4.0.0'')
          \<and> sublist ''C'' (join '', '' (members_requiring sample_workspaces ''lodash'' ''^4.0.0''))"
    using sec [rule_format, OF C(1) sample_effective_lodash(4)] by (simp only: C(2))
  have j: "join '', '' (members_requiring sample_workspaces ''lodash'' ''^4.0.0'') = ''A, C''"
    by (simp add: sample_effective_lodash)
  from listed have "sublist ''C'' ''A, C''" by (simp only: j)
  with one listed C(1) sample_effective_lodash(1,4) equivalent_ranges show ?thesis by blast
qed

subsection \<open>Records per type and package\<close>





































subsection \<open>The candidates for a transitive package\<close>

lemma insort_key_least:
  "\<forall>y \<in> set ys. f x \<le> f y \<Longrightarrow> insort_key f x ys = x # ys"
  by (cases ys) simp_all

lemma sort_key_least_first:
  "\<forall>y \<in> set xs. f x \<le> f y \<Longrightarrow> sort_key f (x # xs) = x # sort_key f xs"
  by (simp add: insort_key_least)

lemma recommended_first:
  assumes "\<forall>s \<in> set rest. score (recommendation s) \<le> score (recommendation best)"
  shows "recommended (generateComparison (best # rest))
     = (if truthy (solution_id best) then Some (solution_id best) else None)"
proof -
  let ?entry = "\<lambda>s. \<lparr> solutionId = solution_id s, m_title = title s,
                                m_risk = riskToNumber (level (risk s)),
                                m_effort = effortToNumber (estimatedEffort s),
                                m_recommendation = score (recommendation s) \<rparr>"
  let ?key = "\<lambda>m. - int (m_recommendation m)"
  have "\<forall>y \<in> set (map ?entry rest). ?key (?entry best) \<le> ?key y"
    using assms by simp
  then have "sort_key ?key (?entry best # map ?entry rest) = ?entry best # sort_key ?key (map ?entry rest)"
    by (rule sort_key_least_first)
  then show ?thesis
    by (simp add: generateComparison_def Let_def)
qed

lemma solution_scores:
  "score (recommendation (upgrade_latest_solution p cur l False d dev pm i)) = 90"
  "score (recommendation (upgrade_target_solution p cur t b d dev pm i)) = 75"
  "score (recommendation (override_solution p tv l pm i)) = 65"
  "score (recommendation (workspace_unify_solution jp p tv lv ws i)) = 85"
  "solution_id (upgrade_latest_solution p cur l b d dev pm i) = i"
  "solution_id (override_solution p tv l pm i) = i"
  by (simp_all add: upgrade_latest_solution_def upgrade_target_solution_def override_solution_def
        workspace_unify_solution_def Let_def)

lemma push_solution_eq:
  "push_solution rnd mk st = (fst st @ [mk (take 8 (drop 2 (rnd (snd st))))], Suc (snd st))"
  by (cases st) (simp add: push_solution_def generateId_def)

text \<open>
  Where the identifier is not empty, the rule of C5 holds: for a package that is in neither
  dependency field of the root manifest and has a non-empty \<open>latest\<close> tag, the first candidate
  is the upgrade to the latest version, not breaking and with score 90; a candidate that
  forces the version through the override field, with score 65, is among the others, all of
  which score less than 90; and the comparison recommends the upgrade, unless its identifier
  is the empty string.
\<close>

lemma generatePackageSolutions_transitive:
  assumes "(case dependencies pj of None \<Rightarrow> None | Some d \<Rightarrow> map_of d p) = None"
    and "(case devDependencies pj of None \<Rightarrow> None | Some d \<Rightarrow> map_of d p) = None"
    and "packageInfo = Some doc" and "map_of (dist_tags doc) ''latest'' = Some l" and "truthy l"
  shows "\<exists>others.
      fst (generatePackageSolutions rnd jp packageInfo p tv pj wss pm strategy cons k)
        = upgrade_latest_solution p None l False False False pm (take 8 (drop 2 (rnd k))) # others
      \<and> (\<exists>i. override_solution p tv l pm i \<in> set others)
      \<and> (\<forall>s \<in> set others. score (recommendation s) < 90)
      \<and> recommended (generateComparison
            (fst (generatePackageSolutions rnd jp packageInfo p tv pj wss pm strategy cons k)))
          = (if truthy (take 8 (drop 2 (rnd k))) then Some (take 8 (drop 2 (rnd k))) else None)"
proof -
  let ?up = "upgrade_latest_solution p None l False False False pm (take 8 (drop 2 (rnd k)))"
  let ?run = "fst (generatePackageSolutions rnd jp packageInfo p tv pj wss pm strategy cons k)"
  have shape: "\<exists>others. ?run = ?up # others
      \<and> (\<exists>i. override_solution p tv l pm i \<in> set others)
      \<and> (\<forall>s \<in> set others. score (recommendation s) < 90)"
    using assms
    by (auto simp: generatePackageSolutions_def Let_def or_else_def isMajorUpgrade_def
          push_solution_eq solution_scores split: option.splits)
  then obtain others where run: "?run = ?up # others"
    and ov: "\<exists>i. override_solution p tv l pm i \<in> set others"
    and less: "\<forall>s \<in> set others. score (recommendation s) < 90"
    by blast
  from less have "\<forall>s \<in> set others. score (recommendation s) \<le> score (recommendation ?up)"
    by (auto simp: solution_scores dest!: bspec)
  then have "recommended (generateComparison (?up # others))
     = (if truthy (solution_id ?up) then Some (solution_id ?up) else None)"
    by (rule recommended_first)
  with run ov less show ?thesis by (simp add: solution_scores)
qed

text \<open>
  C5 does not hold of the code when the first identifier is empty. \<open>lodash\<close> is not a
  dependency of the root manifest and its latest version is \<open>4.17.21\<close>; \<open>Math.random()\<close>
  returns \<open>0\<close> at the first call, whose base 36 representation \<open>"0"\<close> has nothing behind its
  second character. Both candidates are produced, with scores 90 and 65, the upgrade is the
  first row of the matrix, and \<open>recommended\<close> is \<open>null\<close>: no candidate is selected.
\<close>

theorem generateComparison_empty_id_not_recommended:
  "map (\<lambda>s. (solution_id s, score (recommendation s)))
       (fst (generatePackageSolutions zero_first_rnd (\<lambda>a b. a @ ''/'' @ b) (Some lodash_document)
               ''lodash'' None sample_package_json [] ''npm'' ''balanced'' no_constraints 0))
     = [('''', 90), (''abcdefgh'', 65)]
   \<and> recommended (generateComparison
         (fst (generatePackageSolutions zero_first_rnd (\<lambda>a b. a @ ''/'' @ b) (Some lodash_document)
                 ''lodash'' None sample_package_json [] ''npm'' ''balanced'' no_constraints 0)))
       = None
   \<and> recommended (generateComparison
         (fst (generatePackageSolutions sample_rnd (\<lambda>a b. a @ ''/'' @ b) (Some lodash_document)
                 ''lodash'' None sample_package_json [] ''npm'' ''balanced'' no_constraints 0)))
       = Some ''id0''"
proof -
  have run: "fst (generatePackageSolutions rnd jp (Some lodash_document)
               ''lodash'' None sample_package_json [] ''npm'' ''balanced'' no_constraints 0)
      = [upgrade_latest_solution ''lodash'' None ''4.17.21'' False False False ''npm''
           (take 8 (drop 2 (rnd 0))),
         override_solution ''lodash'' None ''4.17.21'' ''npm'' (take 8 (drop 2 (rnd 1)))]" for rnd jp
    by (simp add: generatePackageSolutions_def Let_def or_else_def isMajorUpgrade_def
          push_solution_eq lodash_document_def sample_package_json_def truthy_def)
  have rec: "recommended (generateComparison
       [upgrade_latest_solution ''lodash'' None ''4.17.21'' False False False ''npm'' i,
        override_solution ''lodash'' None ''4.17.21'' ''npm'' j])
     = (if truthy i then Some i else None)" for i j
    using recommended_first
      [of "[override_solution ''lodash'' None ''4.17.21'' ''npm'' j]"
          "upgrade_latest_solution ''lodash'' None ''4.17.21'' False False False ''npm'' i"]
    by (simp add: solution_scores)
  have ids: "take 8 (drop 2 (zero_first_rnd 0)) = []" "take 8 (drop 2 (zero_first_rnd (Suc 0))) = ''abcdefgh''"
    "take 8 (drop 2 (sample_rnd 0)) = ''id0''"
    by (simp_all add: zero_first_rnd_def sample_rnd_def show_nat.simps [of 0] digit_char_def)
  show ?thesis
    by (simp add: run rec ids solution_scores truthy_def)
qed

theorem generateComparison_empty_id_not_recommended_witness:
  "map_of (dist_tags lodash_document) ''latest'' = Some ''4.17.21''
   \<and> truthy ''4.17.21''
   \<and> \<not> isMajorUpgrade None ''4.17.21''
   \<and> map (\<lambda>s. (solution_id s, score (recommendation s)))
       (fst (generatePackageSolutions zero_first_rnd (\<lambda>a b. a @ ''/'' @ b) (Some lodash_document)
               ''lodash'' None sample_package_json [] ''npm'' ''balanced'' no_constraints 0))
     = [('''', 90), (''abcdefgh'', 65)]
   \<and> recommended (generateComparison
         (fst (generatePackageSolutions zero_first_rnd (\<lambda>a b. a @ ''/'' @ b) (Some lodash_document)
                 ''lodash'' None sample_package_json [] ''npm'' ''balanced'' no_constraints 0)))
       = None"
  using generateComparison_empty_id_not_recommended
  by (simp add: lodash_document_def truthy_def isMajorUpgrade_def)

end
